theory Spec2Isabelle
  imports Main "HOL-Library.Word" "HOL-Library.Log_Nat"
begin

unbundle bit_operations_syntax

section \<open>UVD 6.0 bring-up and ring protocol (uvd\_v6\_0.c)\<close>

text \<open>
  A shallow embedding of \<^verbatim>\<open>drivers/gpu/drm/amd/amdgpu/uvd_v6_0.c\<close>. The driver
  functions become state transformers on a device record. Register accesses and busy-wait
  delays are appended to an event trace carried by the device, so that the order of the
  hardware accesses a function performs can be stated. Diagnostic logging (DRM\_ERROR,
  DRM\_INFO, WARN\_ON) changes neither the device nor the control flow and is left out.
\<close>

subsection \<open>Machine words\<close>

type_synonym u32 = "32 word"
type_synonym u64 = "64 word"

text \<open>
  Modelled from the spec: the kernel helpers that split a 64-bit quantity into its low and
  high 32-bit halves (\<^verbatim>\<open>lower_32_bits\<close>, \<^verbatim>\<open>upper_32_bits\<close>), which the source
  uses and does not define.
\<close>

definition lower_32_bits :: "u64 \<Rightarrow> u32" where
  "lower_32_bits n = ucast n"

definition upper_32_bits :: "u64 \<Rightarrow> u32" where
  "upper_32_bits n = ucast (drop_bit 16 (drop_bit 16 n))"

subsection \<open>Registers\<close>

text \<open>The memory-mapped registers the modelled functions touch, by their header names.\<close>

datatype reg =
    mmUVD_RBC_RB_RPTR
  | mmUVD_RBC_RB_WPTR
  | mmUVD_SEMA_WAIT_FAULT_TIMEOUT_CNTL
  | mmUVD_SEMA_WAIT_INCOMPLETE_TIMEOUT_CNTL
  | mmUVD_SEMA_SIGNAL_INCOMPLETE_TIMEOUT_CNTL
  | mmUVD_SEMA_TIMEOUT_STATUS
  | mmUVD_SEMA_CNTL
  | mmUVD_LMI_VCPU_CACHE_64BIT_BAR_LOW
  | mmUVD_LMI_VCPU_CACHE_64BIT_BAR_HIGH
  | mmUVD_VCPU_CACHE_OFFSET0
  | mmUVD_VCPU_CACHE_SIZE0
  | mmUVD_VCPU_CACHE_OFFSET1
  | mmUVD_VCPU_CACHE_SIZE1
  | mmUVD_VCPU_CACHE_OFFSET2
  | mmUVD_VCPU_CACHE_SIZE2
  | mmUVD_POWER_STATUS
  | mmUVD_CGC_GATE
  | mmUVD_MASTINT_EN
  | mmUVD_LMI_CTRL2
  | mmUVD_SOFT_RESET
  | mmSRBM_SOFT_RESET
  | mmUVD_LMI_CTRL
  | mmUVD_LMI_SWAP_CNTL
  | mmUVD_MP_SWAP_CNTL
  | mmUVD_MPC_SET_MUXA0
  | mmUVD_MPC_SET_MUXA1
  | mmUVD_MPC_SET_MUXB0
  | mmUVD_MPC_SET_MUXB1
  | mmUVD_MPC_SET_ALU
  | mmUVD_MPC_SET_MUX
  | mmUVD_VCPU_CNTL
  | mmUVD_STATUS
  | mmUVD_RBC_RB_CNTL
  | mmUVD_RBC_RB_WPTR_CNTL
  | mmUVD_RBC_RB_RPTR_ADDR
  | mmUVD_LMI_RBC_RB_64BIT_BAR_LOW
  | mmUVD_LMI_RBC_RB_64BIT_BAR_HIGH
  | mmUVD_CONTEXT_ID
  | mmUVD_GPCOM_VCPU_DATA0
  | mmUVD_GPCOM_VCPU_DATA1
  | mmUVD_GPCOM_VCPU_CMD
  | mmUVD_SEMA_ADDR_LOW
  | mmUVD_SEMA_ADDR_HIGH
  | mmUVD_SEMA_CMD
  | mmSRBM_STATUS

text \<open>
  Registers whose read value is produced by the hardware rather than by the last write of
  the driver: the two status registers, the context id register (written by the VCPU when it
  consumes a ring packet) and the hardware-owned ring read pointer.
\<close>

fun hw_owned :: "reg \<Rightarrow> bool" where
  "hw_owned mmUVD_STATUS = True"
| "hw_owned mmSRBM_STATUS = True"
| "hw_owned mmUVD_CONTEXT_ID = True"
| "hw_owned mmUVD_RBC_RB_RPTR = True"
| "hw_owned _ = False"

subsection \<open>Header constants\<close>

text \<open>
  The register headers (\<^verbatim>\<open>uvd_6_0_sh_mask.h\<close>, \<^verbatim>\<open>oss_2_0_sh_mask.h\<close>,
  \<^verbatim>\<open>amdgpu.h\<close>, \<^verbatim>\<open>vid.h\<close>) are not part of the modelled file. Every constant
  and macro the code takes from them is a field of the record below, as are the kernel's
  \<^verbatim>\<open>order_base_2\<close> and the build switch \<^verbatim>\<open>__BIG_ENDIAN\<close>, and every function of
  the model takes the record as its parameter \<open>K\<close>. A register field of
  \<^verbatim>\<open>REG_SET_FIELD\<close> is its (mask, shift) pair.
\<close>

record hw_consts =
  UVD_SOFT_RESET__LMI_SOFT_RESET_MASK :: u32
  UVD_SOFT_RESET__VCPU_SOFT_RESET_MASK :: u32
  UVD_SOFT_RESET__LBSI_SOFT_RESET_MASK :: u32
  UVD_SOFT_RESET__RBC_SOFT_RESET_MASK :: u32
  UVD_SOFT_RESET__CSM_SOFT_RESET_MASK :: u32
  UVD_SOFT_RESET__CXW_SOFT_RESET_MASK :: u32
  UVD_SOFT_RESET__TAP_SOFT_RESET_MASK :: u32
  UVD_SOFT_RESET__LMI_UMC_SOFT_RESET_MASK :: u32
  SRBM_SOFT_RESET__SOFT_RESET_UVD_MASK :: u32
  SRBM_STATUS__UVD_BUSY_MASK :: u32
  UVD_RBC_RB_CNTL__RB_BUFSZ :: "u32 \<times> nat"
  UVD_RBC_RB_CNTL__RB_BLKSZ :: "u32 \<times> nat"
  UVD_RBC_RB_CNTL__RB_NO_FETCH :: "u32 \<times> nat"
  UVD_RBC_RB_CNTL__RB_WPTR_POLL_EN :: "u32 \<times> nat"
  UVD_RBC_RB_CNTL__RB_NO_UPDATE :: "u32 \<times> nat"
  UVD_RBC_RB_CNTL__RB_RPTR_WR_EN :: "u32 \<times> nat"
  AMDGPU_UVD_FIRMWARE_OFFSET :: u32
  AMDGPU_UVD_STACK_SIZE :: u32
  AMDGPU_UVD_HEAP_SIZE :: u32
  AMD_IS_APU :: u64
  PACKET0 :: "reg \<Rightarrow> u32 \<Rightarrow> u32"
  order_base_2 :: "u32 \<Rightarrow> u32"
  BIG_ENDIAN :: bool

definition REG_SET_FIELD :: "u32 \<Rightarrow> u32 \<times> nat \<Rightarrow> u32 \<Rightarrow> u32" where
  "REG_SET_FIELD orig_val field field_val =
     (orig_val AND NOT (fst field)) OR (fst field AND push_bit (snd field) field_val)"

subsection \<open>Device state\<close>

datatype event =
    EvRead reg u32
  | EvWrite reg u32
  | EvDelay nat
  | EvUDelay nat

text \<open>
  \<open>regs\<close> holds the value last written to each register. \<open>hw_feed r n\<close> is the value
  the hardware reports on the \<open>n\<close>-th read of a hardware-owned register \<open>r\<close> (counting
  from 0), and \<open>nreads r\<close> counts the reads of \<open>r\<close> so far. The other fields are the
  fields of \<^verbatim>\<open>struct amdgpu_device\<close> and of its UVD ring that the modelled functions
  use: \<^verbatim>\<open>flags\<close> (an unsigned long), \<^verbatim>\<open>usec_timeout\<close> (compared as an unsigned
  32-bit number), \<^verbatim>\<open>uvd.gpu_addr\<close>, \<^verbatim>\<open>uvd.fw->size\<close> (a size\_t, 64 bits), and
  \<^verbatim>\<open>ready\<close>, \<^verbatim>\<open>wptr\<close>, \<^verbatim>\<open>ring_size\<close> and \<^verbatim>\<open>gpu_addr\<close> of the ring.
  \<open>ring_written\<close> is the sequence of words handed to the ring transport, oldest first.
\<close>

record adev =
  regs :: "reg \<Rightarrow> u32"
  hw_feed :: "reg \<Rightarrow> nat \<Rightarrow> u32"
  nreads :: "reg \<Rightarrow> nat"
  trace :: "event list"
  flags :: u64
  usec_timeout :: u32
  uvd_gpu_addr :: u64
  uvd_fw_size :: u64
  ring_ready :: bool
  ring_wptr :: u32
  ring_size :: u32
  ring_gpu_addr :: u64
  ring_written :: "u32 list"

subsection \<open>Register access layer\<close>

text \<open>
  Modelled from the spec: the register access layer (raw read, write and read-modify-write
  of a memory-mapped register, blocking millisecond and microsecond delays), which the
  source uses through the macros \<^verbatim>\<open>RREG32\<close>, \<^verbatim>\<open>WREG32\<close>, \<^verbatim>\<open>WREG32_P\<close>,
  \<^verbatim>\<open>mdelay\<close> and \<^verbatim>\<open>DRM_UDELAY\<close>. \<^verbatim>\<open>WREG32_P(reg, val, mask)\<close> keeps the bits
  of the register selected by the mask and takes the others from \<open>val\<close>.
\<close>

definition RREG32 :: "reg \<Rightarrow> adev \<Rightarrow> u32 \<times> adev" where
  "RREG32 r s =
     (let v = (if hw_owned r then hw_feed s r (nreads s r) else regs s r)
      in (v, s\<lparr>nreads := (nreads s)(r := Suc (nreads s r)),
                trace := trace s @ [EvRead r v]\<rparr>))"

definition WREG32 :: "reg \<Rightarrow> u32 \<Rightarrow> adev \<Rightarrow> adev" where
  "WREG32 r v s = s\<lparr>regs := (regs s)(r := v), trace := trace s @ [EvWrite r v]\<rparr>"

definition WREG32_P :: "reg \<Rightarrow> u32 \<Rightarrow> u32 \<Rightarrow> adev \<Rightarrow> adev" where
  "WREG32_P r val msk s =
     (let (tmp, s) = RREG32 r s;
          tmp = tmp AND msk;
          tmp = tmp OR (val AND NOT msk)
      in WREG32 r tmp s)"

definition mdelay :: "nat \<Rightarrow> adev \<Rightarrow> adev" where
  "mdelay ms s = s\<lparr>trace := trace s @ [EvDelay ms]\<rparr>"

definition DRM_UDELAY :: "nat \<Rightarrow> adev \<Rightarrow> adev" where
  "DRM_UDELAY us s = s\<lparr>trace := trace s @ [EvUDelay us]\<rparr>"

text \<open>The value the next read of a register returns.\<close>

definition next_read :: "adev \<Rightarrow> reg \<Rightarrow> u32" where
  "next_read s r = (if hw_owned r then hw_feed s r (nreads s r) else regs s r)"

subsection \<open>Power/reset sequencer: stop\<close>

definition uvd_v6_0_stop :: "hw_consts \<Rightarrow> adev \<Rightarrow> adev" where
  "uvd_v6_0_stop K s =
     (let s = WREG32 mmUVD_RBC_RB_CNTL 0x11010101 s;
          s = WREG32_P mmUVD_LMI_CTRL2 (push_bit 8 1) (NOT (push_bit 8 1)) s;
          s = mdelay 1 s;
          s = WREG32 mmUVD_SOFT_RESET (UVD_SOFT_RESET__VCPU_SOFT_RESET_MASK K) s;
          s = mdelay 5 s;
          s = WREG32 mmUVD_VCPU_CNTL 0x0 s;
          s = WREG32_P mmUVD_LMI_CTRL2 0 (NOT (push_bit 8 1)) s
      in s)"

subsection \<open>Memory controller programming\<close>

text \<open>
  Modelled from the spec: the GPU page granularity (4096 bytes) and the round-up to it,
  which the source uses through the macro \<^verbatim>\<open>AMDGPU_GPU_PAGE_ALIGN\<close>. The firmware
  size is a \<^verbatim>\<open>size_t\<close>, taken as 64 bits wide; the sum and the round-up are computed at
  that width and the result is stored in the 32-bit variable \<^verbatim>\<open>size\<close>.
\<close>

definition AMDGPU_GPU_PAGE_SIZE :: u64 where
  "AMDGPU_GPU_PAGE_SIZE = 4096"

definition AMDGPU_GPU_PAGE_MASK :: u64 where
  "AMDGPU_GPU_PAGE_MASK = AMDGPU_GPU_PAGE_SIZE - 1"

definition AMDGPU_GPU_PAGE_ALIGN :: "u64 \<Rightarrow> u64" where
  "AMDGPU_GPU_PAGE_ALIGN a = (a + AMDGPU_GPU_PAGE_MASK) AND NOT AMDGPU_GPU_PAGE_MASK"

definition uvd_v6_0_mc_resume :: "hw_consts \<Rightarrow> adev \<Rightarrow> adev" where
  "uvd_v6_0_mc_resume K s =
     (let s = WREG32 mmUVD_LMI_VCPU_CACHE_64BIT_BAR_LOW (lower_32_bits (uvd_gpu_addr s)) s;
          s = WREG32 mmUVD_LMI_VCPU_CACHE_64BIT_BAR_HIGH (upper_32_bits (uvd_gpu_addr s)) s;
          offset = (ucast (AMDGPU_UVD_FIRMWARE_OFFSET K) :: u64);
          size = (ucast (AMDGPU_GPU_PAGE_ALIGN (uvd_fw_size s + 4)) :: u32);
          s = WREG32 mmUVD_VCPU_CACHE_OFFSET0 (ucast (drop_bit 3 offset)) s;
          s = WREG32 mmUVD_VCPU_CACHE_SIZE0 size s;
          offset = offset + ucast size;
          size = AMDGPU_UVD_STACK_SIZE K;
          s = WREG32 mmUVD_VCPU_CACHE_OFFSET1 (ucast (drop_bit 3 offset)) s;
          s = WREG32 mmUVD_VCPU_CACHE_SIZE1 size s;
          offset = offset + ucast size;
          size = AMDGPU_UVD_HEAP_SIZE K;
          s = WREG32 mmUVD_VCPU_CACHE_OFFSET2 (ucast (drop_bit 3 offset)) s;
          s = WREG32 mmUVD_VCPU_CACHE_SIZE2 size s
      in s)"

text \<open>
  The successive values of the local variables \<^verbatim>\<open>offset\<close> and \<^verbatim>\<open>size\<close> of
  \<^verbatim>\<open>uvd_v6_0_mc_resume\<close>, one pair per region (firmware cache, stack, heap).
\<close>

definition mc_regions :: "hw_consts \<Rightarrow> u64 \<Rightarrow> (u64 \<times> u32) list" where
  "mc_regions K fw_size =
     (let offset0 = (ucast (AMDGPU_UVD_FIRMWARE_OFFSET K) :: u64);
          size0 = (ucast (AMDGPU_GPU_PAGE_ALIGN (fw_size + 4)) :: u32);
          offset1 = offset0 + ucast size0;
          size1 = AMDGPU_UVD_STACK_SIZE K;
          offset2 = offset1 + ucast size1;
          size2 = AMDGPU_UVD_HEAP_SIZE K
      in [(offset0, size0), (offset1, size1), (offset2, size2)])"

subsection \<open>Power/reset sequencer: start\<close>

text \<open>The reset and re-deassert of the VCPU after a failed boot attempt (lines 375--380).\<close>

definition vcpu_reset_pulse :: "hw_consts \<Rightarrow> adev \<Rightarrow> adev" where
  "vcpu_reset_pulse K s =
     (let s = WREG32_P mmUVD_SOFT_RESET (UVD_SOFT_RESET__VCPU_SOFT_RESET_MASK K)
                (NOT (UVD_SOFT_RESET__VCPU_SOFT_RESET_MASK K)) s;
          s = mdelay 10 s;
          s = WREG32_P mmUVD_SOFT_RESET 0 (NOT (UVD_SOFT_RESET__VCPU_SOFT_RESET_MASK K)) s;
          s = mdelay 10 s
      in s)"

text \<open>
  The inner loop \<^verbatim>\<open>for (j = 0; j < 100; ++j)\<close>; the first argument is the number of
  iterations left. The result is the last value of \<^verbatim>\<open>status\<close>.
\<close>

fun boot_poll_inner :: "nat \<Rightarrow> u32 \<Rightarrow> adev \<Rightarrow> u32 \<times> adev" where
  "boot_poll_inner 0 status s = (status, s)"
| "boot_poll_inner (Suc n) status s =
     (let (status, s) = RREG32 mmUVD_STATUS s
      in if status AND 2 \<noteq> 0 then (status, s)
         else boot_poll_inner n status (mdelay 10 s))"

text \<open>
  The outer loop \<^verbatim>\<open>for (i = 0; i < 10; ++i)\<close>; the first argument is the number of
  iterations left, \<open>r\<close> is the variable \<^verbatim>\<open>r\<close> of the source.
\<close>

fun boot_poll_outer :: "hw_consts \<Rightarrow> nat \<Rightarrow> int \<Rightarrow> adev \<Rightarrow> int \<times> adev" where
  "boot_poll_outer K 0 r s = (r, s)"
| "boot_poll_outer K (Suc n) r s =
     (let (status, s) = boot_poll_inner 100 0 s;
          r = 0
      in if status AND 2 \<noteq> 0 then (r, s)
         else (let s = vcpu_reset_pulse K s;
                   r = - 1
               in boot_poll_outer K n r s))"

text \<open>
  One unsuccessful poll of the inner loop is a read of the status register followed by
  the 10 ms delay; one unsuccessful outer attempt is 100 unsuccessful polls followed by
  the VCPU reset pulse.
\<close>

definition status_poll_step :: "adev \<Rightarrow> adev" where
  "status_poll_step s = mdelay 10 (snd (RREG32 mmUVD_STATUS s))"

definition failed_boot_attempt :: "hw_consts \<Rightarrow> adev \<Rightarrow> adev" where
  "failed_boot_attempt K s = vcpu_reset_pulse K ((status_poll_step ^^ 100) s)"

text \<open>
  Lines 297--359: everything \<^verbatim>\<open>uvd_v6_0_start\<close> does before the boot poll.
\<close>

definition start_prepare :: "hw_consts \<Rightarrow> adev \<Rightarrow> adev" where
  "start_prepare K s =
     (let s = WREG32_P mmUVD_POWER_STATUS 0 (NOT (push_bit 2 1)) s;
          lmi_swap_cntl = (0 :: u32);
          mp_swap_cntl = (0 :: u32);
          s = uvd_v6_0_mc_resume K s;
          s = WREG32 mmUVD_CGC_GATE 0 s;
          s = WREG32_P mmUVD_MASTINT_EN 0 (NOT (push_bit 1 1)) s;
          s = WREG32_P mmUVD_LMI_CTRL2 (push_bit 8 1) (NOT (push_bit 8 1)) s;
          s = mdelay 1 s;
          s = WREG32 mmUVD_SOFT_RESET
                (UVD_SOFT_RESET__LMI_SOFT_RESET_MASK K OR
                 UVD_SOFT_RESET__VCPU_SOFT_RESET_MASK K OR
                 UVD_SOFT_RESET__LBSI_SOFT_RESET_MASK K OR
                 UVD_SOFT_RESET__RBC_SOFT_RESET_MASK K OR
                 UVD_SOFT_RESET__CSM_SOFT_RESET_MASK K OR
                 UVD_SOFT_RESET__CXW_SOFT_RESET_MASK K OR
                 UVD_SOFT_RESET__TAP_SOFT_RESET_MASK K OR
                 UVD_SOFT_RESET__LMI_UMC_SOFT_RESET_MASK K) s;
          s = mdelay 5 s;
          s = WREG32_P mmSRBM_SOFT_RESET 0 (NOT (SRBM_SOFT_RESET__SOFT_RESET_UVD_MASK K)) s;
          s = mdelay 5 s;
          s = WREG32 mmUVD_LMI_CTRL
                (0x40 OR push_bit 8 1 OR push_bit 13 1 OR push_bit 21 1 OR push_bit 9 1 OR
                 push_bit 20 1) s;
          lmi_swap_cntl = (if BIG_ENDIAN K then 0xa else lmi_swap_cntl);
          mp_swap_cntl = (if BIG_ENDIAN K then 0 else mp_swap_cntl);
          s = WREG32 mmUVD_LMI_SWAP_CNTL lmi_swap_cntl s;
          s = WREG32 mmUVD_MP_SWAP_CNTL mp_swap_cntl s;
          s = WREG32 mmUVD_MPC_SET_MUXA0 0x40c2040 s;
          s = WREG32 mmUVD_MPC_SET_MUXA1 0x0 s;
          s = WREG32 mmUVD_MPC_SET_MUXB0 0x40c2040 s;
          s = WREG32 mmUVD_MPC_SET_MUXB1 0x0 s;
          s = WREG32 mmUVD_MPC_SET_ALU 0 s;
          s = WREG32 mmUVD_MPC_SET_MUX 0x88 s;
          s = WREG32 mmUVD_SOFT_RESET (UVD_SOFT_RESET__VCPU_SOFT_RESET_MASK K) s;
          s = mdelay 5 s;
          s = WREG32 mmUVD_VCPU_CNTL (push_bit 9 1) s;
          s = WREG32_P mmUVD_LMI_CTRL2 0 (NOT (push_bit 8 1)) s;
          s = WREG32 mmUVD_SOFT_RESET 0 s;
          s = mdelay 10 s
      in s)"

text \<open>
  Lines 388--425: what \<^verbatim>\<open>uvd_v6_0_start\<close> does once the VCPU has booted.
\<close>

definition start_finish :: "hw_consts \<Rightarrow> adev \<Rightarrow> adev" where
  "start_finish K s =
     (let s = WREG32_P mmUVD_MASTINT_EN (push_bit 1 3) (NOT (push_bit 1 3)) s;
          s = WREG32_P mmUVD_STATUS 0 (NOT (push_bit 1 2)) s;
          rb_bufsz = order_base_2 K (ring_size s);
          tmp = 0;
          tmp = REG_SET_FIELD tmp (UVD_RBC_RB_CNTL__RB_BUFSZ K) rb_bufsz;
          tmp = REG_SET_FIELD tmp (UVD_RBC_RB_CNTL__RB_BLKSZ K) 1;
          tmp = REG_SET_FIELD tmp (UVD_RBC_RB_CNTL__RB_NO_FETCH K) 1;
          tmp = REG_SET_FIELD tmp (UVD_RBC_RB_CNTL__RB_WPTR_POLL_EN K) 0;
          tmp = REG_SET_FIELD tmp (UVD_RBC_RB_CNTL__RB_NO_UPDATE K) 1;
          tmp = REG_SET_FIELD tmp (UVD_RBC_RB_CNTL__RB_RPTR_WR_EN K) 1;
          s = WREG32 mmUVD_RBC_RB_CNTL tmp s;
          s = WREG32 mmUVD_RBC_RB_WPTR_CNTL 0 s;
          s = WREG32 mmUVD_RBC_RB_RPTR_ADDR (drop_bit 2 (upper_32_bits (ring_gpu_addr s))) s;
          s = WREG32 mmUVD_LMI_RBC_RB_64BIT_BAR_LOW (lower_32_bits (ring_gpu_addr s)) s;
          s = WREG32 mmUVD_LMI_RBC_RB_64BIT_BAR_HIGH (upper_32_bits (ring_gpu_addr s)) s;
          s = WREG32 mmUVD_RBC_RB_RPTR 0 s;
          (rptr, s) = RREG32 mmUVD_RBC_RB_RPTR s;
          s = s\<lparr>ring_wptr := rptr\<rparr>;
          s = WREG32 mmUVD_RBC_RB_WPTR (ring_wptr s) s;
          s = WREG32_P mmUVD_RBC_RB_CNTL 0 (NOT (fst (UVD_RBC_RB_CNTL__RB_NO_FETCH K))) s
      in s)"

text \<open>
  \<^verbatim>\<open>uvd_v6_0_start\<close>. The source leaves \<^verbatim>\<open>r\<close> uninitialised before the loop;
  the loop body runs at least once and assigns it, so the initial value passed here is never
  returned.
\<close>

definition uvd_v6_0_start :: "hw_consts \<Rightarrow> adev \<Rightarrow> int \<times> adev" where
  "uvd_v6_0_start K s =
     (let s = start_prepare K s;
          (r, s) = boot_poll_outer K 10 0 s
      in if r \<noteq> 0 then (r, s)
         else (0, start_finish K s))"

subsection \<open>Soft reset\<close>

definition uvd_v6_0_soft_reset :: "hw_consts \<Rightarrow> adev \<Rightarrow> int \<times> adev" where
  "uvd_v6_0_soft_reset K s =
     (let s = uvd_v6_0_stop K s;
          s = WREG32_P mmSRBM_SOFT_RESET (SRBM_SOFT_RESET__SOFT_RESET_UVD_MASK K)
                (NOT (SRBM_SOFT_RESET__SOFT_RESET_UVD_MASK K)) s;
          s = mdelay 5 s
      in uvd_v6_0_start K s)"

text \<open>
  The composition the specification gives for the soft reset: stop, then set the UVD bit of
  the system soft-reset register and hold it for 5 ms, then start.
\<close>

definition srbm_assert_uvd_reset :: "hw_consts \<Rightarrow> adev \<Rightarrow> adev" where
  "srbm_assert_uvd_reset K s =
     (let (v, s) = RREG32 mmSRBM_SOFT_RESET s
      in WREG32 mmSRBM_SOFT_RESET (v OR SRBM_SOFT_RESET__SOFT_RESET_UVD_MASK K) s)"

definition soft_reset_spec :: "hw_consts \<Rightarrow> adev \<Rightarrow> int \<times> adev" where
  "soft_reset_spec K s =
     uvd_v6_0_start K (mdelay 5 (srbm_assert_uvd_reset K (uvd_v6_0_stop K s)))"

text \<open>The events a run from state \<open>s\<close> to state \<open>s'\<close> appended to the trace.\<close>

definition events_of :: "adev \<Rightarrow> adev \<Rightarrow> event list" where
  "events_of s s' = drop (length (trace s)) (trace s')"

subsection \<open>Ring transport and other collaborators\<close>

text \<open>
  The ring transport (\<^verbatim>\<open>amdgpu_ring_lock\<close>, \<^verbatim>\<open>amdgpu_ring_unlock_commit\<close>) and the
  memory-resource release step (\<^verbatim>\<open>amdgpu_uvd_suspend\<close>) live in other files. They are
  parameters of the model: arbitrary state transformers, the fallible ones with a result.
\<close>

record ext_funcs =
  amdgpu_ring_lock :: "adev \<Rightarrow> nat \<Rightarrow> int \<times> adev"
  amdgpu_ring_unlock_commit :: "adev \<Rightarrow> adev"
  amdgpu_uvd_suspend :: "adev \<Rightarrow> int \<times> adev"

text \<open>
  Modelled from the spec: \<^verbatim>\<open>amdgpu_ring_write\<close>, the slot write of the ring transport,
  which puts one 32-bit word into the next slot of the ring. The model records the words in
  the order they are written.
\<close>

definition amdgpu_ring_write :: "u32 \<Rightarrow> adev \<Rightarrow> adev" where
  "amdgpu_ring_write v s = s\<lparr>ring_written := ring_written s @ [v]\<rparr>"

text \<open>
  Modelled from the spec: the kernel's error numbers, which the source returns negated
  and does not define.
\<close>

definition EINVAL :: int where
  "EINVAL = 22"

definition ETIMEDOUT :: int where
  "ETIMEDOUT = 110"

subsection \<open>Ring protocol encoder\<close>

text \<open>
  \<^verbatim>\<open>seq\<close> and \<^verbatim>\<open>addr & 0xffffffff\<close> are 64-bit values passed to the 32-bit
  parameter of \<^verbatim>\<open>amdgpu_ring_write\<close>: the conversion keeps the low 32 bits.
\<close>

definition uvd_v6_0_ring_emit_fence :: "hw_consts \<Rightarrow> adev \<Rightarrow> u64 \<Rightarrow> u64 \<Rightarrow> u32 \<Rightarrow> adev" where
  "uvd_v6_0_ring_emit_fence K ring addr seq fence_flags =
     (let ring = amdgpu_ring_write (PACKET0 K mmUVD_CONTEXT_ID 0) ring;
          ring = amdgpu_ring_write (ucast seq) ring;
          ring = amdgpu_ring_write (PACKET0 K mmUVD_GPCOM_VCPU_DATA0 0) ring;
          ring = amdgpu_ring_write (ucast (addr AND 0xffffffff)) ring;
          ring = amdgpu_ring_write (PACKET0 K mmUVD_GPCOM_VCPU_DATA1 0) ring;
          ring = amdgpu_ring_write (upper_32_bits addr AND 0xff) ring;
          ring = amdgpu_ring_write (PACKET0 K mmUVD_GPCOM_VCPU_CMD 0) ring;
          ring = amdgpu_ring_write 0 ring;
          ring = amdgpu_ring_write (PACKET0 K mmUVD_GPCOM_VCPU_DATA0 0) ring;
          ring = amdgpu_ring_write 0 ring;
          ring = amdgpu_ring_write (PACKET0 K mmUVD_GPCOM_VCPU_DATA1 0) ring;
          ring = amdgpu_ring_write 0 ring;
          ring = amdgpu_ring_write (PACKET0 K mmUVD_GPCOM_VCPU_CMD 0) ring;
          ring = amdgpu_ring_write 2 ring
      in ring)"

definition uvd_v6_0_ring_emit_semaphore :: "hw_consts \<Rightarrow> adev \<Rightarrow> u64 \<Rightarrow> bool \<Rightarrow> bool \<times> adev" where
  "uvd_v6_0_ring_emit_semaphore K ring semaphore_gpu_addr emit_wait =
     (let addr = semaphore_gpu_addr;
          ring = amdgpu_ring_write (PACKET0 K mmUVD_SEMA_ADDR_LOW 0) ring;
          ring = amdgpu_ring_write (ucast (drop_bit 3 addr AND 0x000FFFFF)) ring;
          ring = amdgpu_ring_write (PACKET0 K mmUVD_SEMA_ADDR_HIGH 0) ring;
          ring = amdgpu_ring_write (ucast (drop_bit 23 addr AND 0x000FFFFF)) ring;
          ring = amdgpu_ring_write (PACKET0 K mmUVD_SEMA_CMD 0) ring;
          ring = amdgpu_ring_write (0x80 OR (if emit_wait then 1 else 0)) ring
      in (True, ring))"

text \<open>
  The polling loop of \<^verbatim>\<open>uvd_v6_0_ring_test_ring\<close>; the first argument is the number of
  iterations left. The result tells whether the loop was left by \<^verbatim>\<open>break\<close>, that is
  with \<^verbatim>\<open>i < adev->usec_timeout\<close>.
\<close>

fun ring_test_poll :: "nat \<Rightarrow> adev \<Rightarrow> bool \<times> adev" where
  "ring_test_poll 0 s = (False, s)"
| "ring_test_poll (Suc n) s =
     (let (tmp, s) = RREG32 mmUVD_CONTEXT_ID s
      in if tmp = 0xDEADBEEF then (True, s)
         else ring_test_poll n (DRM_UDELAY 1 s))"

definition uvd_v6_0_ring_test_ring :: "ext_funcs \<Rightarrow> hw_consts \<Rightarrow> adev \<Rightarrow> int \<times> adev" where
  "uvd_v6_0_ring_test_ring X K s =
     (let s = WREG32 mmUVD_CONTEXT_ID 0xCAFEDEAD s;
          (r, s) = amdgpu_ring_lock X s 3
      in if r \<noteq> 0 then (r, s)
         else (let s = amdgpu_ring_write (PACKET0 K mmUVD_CONTEXT_ID 0) s;
                   s = amdgpu_ring_write 0xDEADBEEF s;
                   s = amdgpu_ring_unlock_commit X s;
                   (found, s) = ring_test_poll (unat (usec_timeout s)) s
               in if found then (r, s) else (- EINVAL, s)))"

subsection \<open>Lifecycle controller\<close>

text \<open>
  \<^verbatim>\<open>amdgpu_ring_test_ring(ring)\<close> calls the ring's \<^verbatim>\<open>test_ring\<close> function, which
  \<^verbatim>\<open>uvd_v6_0_set_ring_funcs\<close> sets to \<^verbatim>\<open>uvd_v6_0_ring_test_ring\<close>.
\<close>

definition uvd_v6_0_hw_init :: "ext_funcs \<Rightarrow> hw_consts \<Rightarrow> adev \<Rightarrow> int \<times> adev" where
  "uvd_v6_0_hw_init X K s =
     (let (r, s) = uvd_v6_0_start K s
      in if r \<noteq> 0 then (r, s)
         else (let s = s\<lparr>ring_ready := True\<rparr>;
                   (r, s) = uvd_v6_0_ring_test_ring X K s
               in if r \<noteq> 0 then (r, s\<lparr>ring_ready := False\<rparr>)
                  else (let (r, s) = amdgpu_ring_lock X s 10
                        in if r \<noteq> 0 then (r, s)
                           else (let tmp = PACKET0 K mmUVD_SEMA_WAIT_FAULT_TIMEOUT_CNTL 0;
                                     s = amdgpu_ring_write tmp s;
                                     s = amdgpu_ring_write 0xFFFFF s;
                                     tmp = PACKET0 K mmUVD_SEMA_WAIT_INCOMPLETE_TIMEOUT_CNTL 0;
                                     s = amdgpu_ring_write tmp s;
                                     s = amdgpu_ring_write 0xFFFFF s;
                                     tmp = PACKET0 K mmUVD_SEMA_SIGNAL_INCOMPLETE_TIMEOUT_CNTL 0;
                                     s = amdgpu_ring_write tmp s;
                                     s = amdgpu_ring_write 0xFFFFF s;
                                     s = amdgpu_ring_write (PACKET0 K mmUVD_SEMA_TIMEOUT_STATUS 0) s;
                                     s = amdgpu_ring_write 0x8 s;
                                     s = amdgpu_ring_write (PACKET0 K mmUVD_SEMA_CNTL 0) s;
                                     s = amdgpu_ring_write 3 s;
                                     s = amdgpu_ring_unlock_commit X s
                                 in (r, s)))))"

definition uvd_v6_0_hw_fini :: "hw_consts \<Rightarrow> adev \<Rightarrow> int \<times> adev" where
  "uvd_v6_0_hw_fini K s =
     (let s = uvd_v6_0_stop K s;
          s = s\<lparr>ring_ready := False\<rparr>
      in (0, s))"

definition uvd_v6_0_suspend :: "ext_funcs \<Rightarrow> hw_consts \<Rightarrow> adev \<Rightarrow> int \<times> adev" where
  "uvd_v6_0_suspend X K s =
     (if flags s AND AMD_IS_APU K = 0
      then (let (r, s) = amdgpu_uvd_suspend X s
            in if r \<noteq> 0 then (r, s) else uvd_v6_0_hw_fini K s)
      else uvd_v6_0_hw_fini K s)"

subsection \<open>Idle queries\<close>

definition uvd_v6_0_is_idle :: "hw_consts \<Rightarrow> adev \<Rightarrow> bool \<times> adev" where
  "uvd_v6_0_is_idle K s =
     (let (v, s) = RREG32 mmSRBM_STATUS s
      in (\<not> (v AND SRBM_STATUS__UVD_BUSY_MASK K \<noteq> 0), s))"

text \<open>
  The loop \<^verbatim>\<open>for (i = 0; i < adev->usec_timeout; i++)\<close> of
  \<^verbatim>\<open>uvd_v6_0_wait_for_idle\<close>; the first argument is the number of iterations left.
  \<^verbatim>\<open>i\<close> is unsigned, so the bound is compared as an unsigned number.
\<close>

fun wait_for_idle_loop :: "hw_consts \<Rightarrow> nat \<Rightarrow> adev \<Rightarrow> int \<times> adev" where
  "wait_for_idle_loop K 0 s = (- ETIMEDOUT, s)"
| "wait_for_idle_loop K (Suc n) s =
     (let (v, s) = RREG32 mmSRBM_STATUS s
      in if \<not> (v AND SRBM_STATUS__UVD_BUSY_MASK K \<noteq> 0) then (0, s)
         else wait_for_idle_loop K n s)"

definition uvd_v6_0_wait_for_idle :: "hw_consts \<Rightarrow> adev \<Rightarrow> int \<times> adev" where
  "uvd_v6_0_wait_for_idle K s = wait_for_idle_loop K (unat (usec_timeout s)) s"

subsection \<open>Interrupt state\<close>

datatype amdgpu_interrupt_state = AMDGPU_IRQ_STATE_DISABLE | AMDGPU_IRQ_STATE_ENABLE

definition uvd_v6_0_set_interrupt_state ::
    "adev \<Rightarrow> 'src \<Rightarrow> u32 \<Rightarrow> amdgpu_interrupt_state \<Rightarrow> int \<times> adev" where
  "uvd_v6_0_set_interrupt_state s source type state = (0, s)"

subsection \<open>Sample inputs\<close>

text \<open>
  A sample assignment of the header constants and sample devices, on which the model is
  evaluated. The firmware base offset 256, the masks and the field layout of the ring
  control register follow the amdgpu headers for VI parts; the register numbering behind
  \<open>PACKET0\<close> is made up. The device takes the answers of the hardware-owned registers
  as its argument; the collaborators take the result of locking the ring for ten words and
  the result of the memory-resource release step, and leave the device as it is.
\<close>

fun sample_reg_offset :: "reg \<Rightarrow> u32" where
  "sample_reg_offset mmUVD_RBC_RB_RPTR = 0x3d00"
| "sample_reg_offset mmUVD_RBC_RB_WPTR = 0x3d01"
| "sample_reg_offset mmUVD_SEMA_WAIT_FAULT_TIMEOUT_CNTL = 0x3d02"
| "sample_reg_offset mmUVD_SEMA_WAIT_INCOMPLETE_TIMEOUT_CNTL = 0x3d03"
| "sample_reg_offset mmUVD_SEMA_SIGNAL_INCOMPLETE_TIMEOUT_CNTL = 0x3d04"
| "sample_reg_offset mmUVD_SEMA_TIMEOUT_STATUS = 0x3d05"
| "sample_reg_offset mmUVD_SEMA_CNTL = 0x3d06"
| "sample_reg_offset mmUVD_LMI_VCPU_CACHE_64BIT_BAR_LOW = 0x3d07"
| "sample_reg_offset mmUVD_LMI_VCPU_CACHE_64BIT_BAR_HIGH = 0x3d08"
| "sample_reg_offset mmUVD_VCPU_CACHE_OFFSET0 = 0x3d09"
| "sample_reg_offset mmUVD_VCPU_CACHE_SIZE0 = 0x3d0a"
| "sample_reg_offset mmUVD_VCPU_CACHE_OFFSET1 = 0x3d0b"
| "sample_reg_offset mmUVD_VCPU_CACHE_SIZE1 = 0x3d0c"
| "sample_reg_offset mmUVD_VCPU_CACHE_OFFSET2 = 0x3d0d"
| "sample_reg_offset mmUVD_VCPU_CACHE_SIZE2 = 0x3d0e"
| "sample_reg_offset mmUVD_POWER_STATUS = 0x3d0f"
| "sample_reg_offset mmUVD_CGC_GATE = 0x3d10"
| "sample_reg_offset mmUVD_MASTINT_EN = 0x3d11"
| "sample_reg_offset mmUVD_LMI_CTRL2 = 0x3d12"
| "sample_reg_offset mmUVD_SOFT_RESET = 0x3d13"
| "sample_reg_offset mmSRBM_SOFT_RESET = 0x3d14"
| "sample_reg_offset mmUVD_LMI_CTRL = 0x3d15"
| "sample_reg_offset mmUVD_LMI_SWAP_CNTL = 0x3d16"
| "sample_reg_offset mmUVD_MP_SWAP_CNTL = 0x3d17"
| "sample_reg_offset mmUVD_MPC_SET_MUXA0 = 0x3d18"
| "sample_reg_offset mmUVD_MPC_SET_MUXA1 = 0x3d19"
| "sample_reg_offset mmUVD_MPC_SET_MUXB0 = 0x3d1a"
| "sample_reg_offset mmUVD_MPC_SET_MUXB1 = 0x3d1b"
| "sample_reg_offset mmUVD_MPC_SET_ALU = 0x3d1c"
| "sample_reg_offset mmUVD_MPC_SET_MUX = 0x3d1d"
| "sample_reg_offset mmUVD_VCPU_CNTL = 0x3d1e"
| "sample_reg_offset mmUVD_STATUS = 0x3d1f"
| "sample_reg_offset mmUVD_RBC_RB_CNTL = 0x3d20"
| "sample_reg_offset mmUVD_RBC_RB_WPTR_CNTL = 0x3d21"
| "sample_reg_offset mmUVD_RBC_RB_RPTR_ADDR = 0x3d22"
| "sample_reg_offset mmUVD_LMI_RBC_RB_64BIT_BAR_LOW = 0x3d23"
| "sample_reg_offset mmUVD_LMI_RBC_RB_64BIT_BAR_HIGH = 0x3d24"
| "sample_reg_offset mmUVD_CONTEXT_ID = 0x3d25"
| "sample_reg_offset mmUVD_GPCOM_VCPU_DATA0 = 0x3d26"
| "sample_reg_offset mmUVD_GPCOM_VCPU_DATA1 = 0x3d27"
| "sample_reg_offset mmUVD_GPCOM_VCPU_CMD = 0x3d28"
| "sample_reg_offset mmUVD_SEMA_ADDR_LOW = 0x3d29"
| "sample_reg_offset mmUVD_SEMA_ADDR_HIGH = 0x3d2a"
| "sample_reg_offset mmUVD_SEMA_CMD = 0x3d2b"
| "sample_reg_offset mmSRBM_STATUS = 0x3d2c"

definition sample_consts :: hw_consts where
  "sample_consts =
     \<lparr>UVD_SOFT_RESET__LMI_SOFT_RESET_MASK = 0x4,
      UVD_SOFT_RESET__VCPU_SOFT_RESET_MASK = 0x8,
      UVD_SOFT_RESET__LBSI_SOFT_RESET_MASK = 0x2,
      UVD_SOFT_RESET__RBC_SOFT_RESET_MASK = 0x1,
      UVD_SOFT_RESET__CSM_SOFT_RESET_MASK = 0x20,
      UVD_SOFT_RESET__CXW_SOFT_RESET_MASK = 0x40,
      UVD_SOFT_RESET__TAP_SOFT_RESET_MASK = 0x80,
      UVD_SOFT_RESET__LMI_UMC_SOFT_RESET_MASK = 0x2000,
      SRBM_SOFT_RESET__SOFT_RESET_UVD_MASK = 0x40000,
      SRBM_STATUS__UVD_BUSY_MASK = 0x80000,
      UVD_RBC_RB_CNTL__RB_BUFSZ = (0x1f, 0),
      UVD_RBC_RB_CNTL__RB_BLKSZ = (0x1f00, 8),
      UVD_RBC_RB_CNTL__RB_NO_FETCH = (0x10000, 16),
      UVD_RBC_RB_CNTL__RB_WPTR_POLL_EN = (0x100000, 20),
      UVD_RBC_RB_CNTL__RB_NO_UPDATE = (0x1000000, 24),
      UVD_RBC_RB_CNTL__RB_RPTR_WR_EN = (0x10000000, 28),
      AMDGPU_UVD_FIRMWARE_OFFSET = 256,
      AMDGPU_UVD_STACK_SIZE = 0x100000,
      AMDGPU_UVD_HEAP_SIZE = 0x100000,
      AMD_IS_APU = 0x20000,
      PACKET0 = (\<lambda>r n. (sample_reg_offset r AND 0xFFFF) OR push_bit 16 (n AND 0x3FFF)),
      order_base_2 = (\<lambda>n. of_nat (floorlog 2 (unat n - 1))),
      BIG_ENDIAN = False\<rparr>"

definition sample_dev :: "(reg \<Rightarrow> nat \<Rightarrow> u32) \<Rightarrow> adev" where
  "sample_dev feed =
     \<lparr>regs = (\<lambda>r. 0), hw_feed = feed, nreads = (\<lambda>r. 0), trace = [], flags = 0,
      usec_timeout = 100000, uvd_gpu_addr = 0x100000, uvd_fw_size = 100000,
      ring_ready = False, ring_wptr = 0, ring_size = 4096, ring_gpu_addr = 0x200000,
      ring_written = []\<rparr>"

definition sample_ext :: "int \<Rightarrow> int \<Rightarrow> ext_funcs" where
  "sample_ext lock10 susp =
     \<lparr>amdgpu_ring_lock = (\<lambda>s ndw. (if ndw = 10 then lock10 else 0, s)),
      amdgpu_ring_unlock_commit = (\<lambda>s. s),
      amdgpu_uvd_suspend = (\<lambda>s. (susp, s))\<rparr>"

section \<open>Properties\<close>

subsection \<open>The register access layer, field by field\<close>

lemma RREG32_sel [simp]:
  "fst (RREG32 r s) = next_read s r"
  "regs (snd (RREG32 r s)) = regs s"
  "hw_feed (snd (RREG32 r s)) = hw_feed s"
  "nreads (snd (RREG32 r s)) = (nreads s)(r := Suc (nreads s r))"
  "trace (snd (RREG32 r s)) = trace s @ [EvRead r (next_read s r)]"
  "flags (snd (RREG32 r s)) = flags s"
  "usec_timeout (snd (RREG32 r s)) = usec_timeout s"
  "uvd_gpu_addr (snd (RREG32 r s)) = uvd_gpu_addr s"
  "uvd_fw_size (snd (RREG32 r s)) = uvd_fw_size s"
  "ring_ready (snd (RREG32 r s)) = ring_ready s"
  "ring_wptr (snd (RREG32 r s)) = ring_wptr s"
  "ring_size (snd (RREG32 r s)) = ring_size s"
  "ring_gpu_addr (snd (RREG32 r s)) = ring_gpu_addr s"
  "ring_written (snd (RREG32 r s)) = ring_written s"
  by (simp_all add: RREG32_def next_read_def Let_def)

lemma WREG32_sel [simp]:
  "regs (WREG32 r v s) = (regs s)(r := v)"
  "hw_feed (WREG32 r v s) = hw_feed s"
  "nreads (WREG32 r v s) = nreads s"
  "trace (WREG32 r v s) = trace s @ [EvWrite r v]"
  "flags (WREG32 r v s) = flags s"
  "usec_timeout (WREG32 r v s) = usec_timeout s"
  "uvd_gpu_addr (WREG32 r v s) = uvd_gpu_addr s"
  "uvd_fw_size (WREG32 r v s) = uvd_fw_size s"
  "ring_ready (WREG32 r v s) = ring_ready s"
  "ring_wptr (WREG32 r v s) = ring_wptr s"
  "ring_size (WREG32 r v s) = ring_size s"
  "ring_gpu_addr (WREG32 r v s) = ring_gpu_addr s"
  "ring_written (WREG32 r v s) = ring_written s"
  by (simp_all add: WREG32_def)

lemma WREG32_P_sel [simp]:
  "regs (WREG32_P r val msk s) = (regs s)(r := (next_read s r AND msk) OR (val AND NOT msk))"
  "hw_feed (WREG32_P r val msk s) = hw_feed s"
  "nreads (WREG32_P r val msk s) = (nreads s)(r := Suc (nreads s r))"
  "trace (WREG32_P r val msk s) =
     trace s @ [EvRead r (next_read s r),
                EvWrite r ((next_read s r AND msk) OR (val AND NOT msk))]"
  "flags (WREG32_P r val msk s) = flags s"
  "usec_timeout (WREG32_P r val msk s) = usec_timeout s"
  "uvd_gpu_addr (WREG32_P r val msk s) = uvd_gpu_addr s"
  "uvd_fw_size (WREG32_P r val msk s) = uvd_fw_size s"
  "ring_ready (WREG32_P r val msk s) = ring_ready s"
  "ring_wptr (WREG32_P r val msk s) = ring_wptr s"
  "ring_size (WREG32_P r val msk s) = ring_size s"
  "ring_gpu_addr (WREG32_P r val msk s) = ring_gpu_addr s"
  "ring_written (WREG32_P r val msk s) = ring_written s"
  by (simp_all add: WREG32_P_def split_def Let_def)

lemma mdelay_sel [simp]:
  "regs (mdelay n s) = regs s"
  "hw_feed (mdelay n s) = hw_feed s"
  "nreads (mdelay n s) = nreads s"
  "trace (mdelay n s) = trace s @ [EvDelay n]"
  "flags (mdelay n s) = flags s"
  "usec_timeout (mdelay n s) = usec_timeout s"
  "uvd_gpu_addr (mdelay n s) = uvd_gpu_addr s"
  "uvd_fw_size (mdelay n s) = uvd_fw_size s"
  "ring_ready (mdelay n s) = ring_ready s"
  "ring_wptr (mdelay n s) = ring_wptr s"
  "ring_size (mdelay n s) = ring_size s"
  "ring_gpu_addr (mdelay n s) = ring_gpu_addr s"
  "ring_written (mdelay n s) = ring_written s"
  by (simp_all add: mdelay_def)

lemma DRM_UDELAY_sel [simp]:
  "regs (DRM_UDELAY n s) = regs s"
  "hw_feed (DRM_UDELAY n s) = hw_feed s"
  "nreads (DRM_UDELAY n s) = nreads s"
  "trace (DRM_UDELAY n s) = trace s @ [EvUDelay n]"
  "flags (DRM_UDELAY n s) = flags s"
  "usec_timeout (DRM_UDELAY n s) = usec_timeout s"
  "uvd_gpu_addr (DRM_UDELAY n s) = uvd_gpu_addr s"
  "uvd_fw_size (DRM_UDELAY n s) = uvd_fw_size s"
  "ring_ready (DRM_UDELAY n s) = ring_ready s"
  "ring_wptr (DRM_UDELAY n s) = ring_wptr s"
  "ring_size (DRM_UDELAY n s) = ring_size s"
  "ring_gpu_addr (DRM_UDELAY n s) = ring_gpu_addr s"
  "ring_written (DRM_UDELAY n s) = ring_written s"
  by (simp_all add: DRM_UDELAY_def)

lemma next_read_plain: "\<not> hw_owned r \<Longrightarrow> next_read s r = regs s r"
  by (simp add: next_read_def)

lemma next_read_hw: "hw_owned r \<Longrightarrow> next_read s r = hw_feed s r (nreads s r)"
  by (simp add: next_read_def)

subsection \<open>Bit patterns of the read-modify-write accesses\<close>

lemma set_then_clear_gen:
  "(v AND NOT m) OR m = v OR (m :: u32)"
  "((v AND NOT m) OR m) AND NOT m = v AND NOT m"
  "(v OR m) AND NOT m = v AND NOT m"
  "(v AND NOT m) AND NOT m = v AND NOT m"
  "(v OR m) AND m = m"
  "(v AND NOT m) AND m = 0"
  by (rule bit_word_eqI, auto simp: bit_simps)+

lemma bit8_simps:
  "(v AND - 257) OR 256 = v OR (256 :: u32)"
  "((v AND - 257) OR 256) AND - 257 = v AND (- 257 :: u32)"
  "(v OR 256) AND - 257 = v AND (- 257 :: u32)"
  "(v AND - 257) AND - 257 = v AND (- 257 :: u32)"
  using set_then_clear_gen [of v 256] by simp_all

lemma ucast_low32: "(ucast ((w :: u64) AND 0xffffffff) :: u32) = ucast w"
proof -
  have m: "(0xffffffff :: u64) = mask 32"
    by (simp add: mask_eq_exp_minus_1)
  show ?thesis
    unfolding m by (rule bit_word_eqI) (auto simp: bit_simps)
qed

lemma and_mask20: "(w :: u64) AND 0xFFFFF = take_bit 20 w"
  by (simp add: take_bit_eq_mask mask_eq_exp_minus_1)

subsection \<open>Stop\<close>

lemma stop_trace:
  "trace (uvd_v6_0_stop K s) = trace s @
     [EvWrite mmUVD_RBC_RB_CNTL 0x11010101,
      EvRead mmUVD_LMI_CTRL2 (regs s mmUVD_LMI_CTRL2),
      EvWrite mmUVD_LMI_CTRL2 (regs s mmUVD_LMI_CTRL2 OR 0x100),
      EvDelay 1,
      EvWrite mmUVD_SOFT_RESET (UVD_SOFT_RESET__VCPU_SOFT_RESET_MASK K),
      EvDelay 5,
      EvWrite mmUVD_VCPU_CNTL 0,
      EvRead mmUVD_LMI_CTRL2 (regs s mmUVD_LMI_CTRL2 OR 0x100),
      EvWrite mmUVD_LMI_CTRL2 (regs s mmUVD_LMI_CTRL2 AND NOT 0x100)]"
  by (simp add: uvd_v6_0_stop_def Let_def next_read_plain bit8_simps)

lemma stop_regs:
  "regs (uvd_v6_0_stop K s) = (regs s)
     (mmUVD_RBC_RB_CNTL := 0x11010101,
      mmUVD_SOFT_RESET := UVD_SOFT_RESET__VCPU_SOFT_RESET_MASK K,
      mmUVD_VCPU_CNTL := 0,
      mmUVD_LMI_CTRL2 := regs s mmUVD_LMI_CTRL2 AND NOT 0x100)"
  by (simp add: uvd_v6_0_stop_def Let_def next_read_plain bit8_simps)

text \<open>
  Claim C5. Running stop twice leaves the registers exactly as running it once does, and
  each stop performs, in this order: the write of the idle value 0x11010101 to the ring
  control register, the stall of the bus bridge (bit 8 of UVD\_LMI\_CTRL2 set, 1 ms), the
  assertion of the VCPU reset (5 ms), the write of 0 to the VCPU clock control, and the
  unstall of the bus bridge (bit 8 cleared).
\<close>

theorem stop_idempotent:
  "regs (uvd_v6_0_stop K (uvd_v6_0_stop K s)) = regs (uvd_v6_0_stop K s)
   \<and> trace (uvd_v6_0_stop K s) = trace s @
     [EvWrite mmUVD_RBC_RB_CNTL 0x11010101,
      EvRead mmUVD_LMI_CTRL2 (regs s mmUVD_LMI_CTRL2),
      EvWrite mmUVD_LMI_CTRL2 (regs s mmUVD_LMI_CTRL2 OR 0x100),
      EvDelay 1,
      EvWrite mmUVD_SOFT_RESET (UVD_SOFT_RESET__VCPU_SOFT_RESET_MASK K),
      EvDelay 5,
      EvWrite mmUVD_VCPU_CNTL 0,
      EvRead mmUVD_LMI_CTRL2 (regs s mmUVD_LMI_CTRL2 OR 0x100),
      EvWrite mmUVD_LMI_CTRL2 (regs s mmUVD_LMI_CTRL2 AND NOT 0x100)]"
proof -
  have "regs (uvd_v6_0_stop K (uvd_v6_0_stop K s)) = regs (uvd_v6_0_stop K s)"
    by (rule ext) (simp add: stop_regs bit8_simps)
  then show ?thesis
    by (simp only: stop_trace simp_thms)
qed

subsection \<open>Ring protocol encoder\<close>

text \<open>
  Claim C7. For every semaphore address and every \<open>emit_wait\<close>, the semaphore packet is
  exactly six ring words: the low tag, bits 3--22 of the address (the address shifted right
  by 3 and cut to 20 bits), the high tag, bits 23--42 of the address, the command tag, and
  0x80 plus 1 for a wait or plus 0 for a signal.
\<close>

theorem emit_semaphore_words:
  "uvd_v6_0_ring_emit_semaphore K ring addr emit_wait =
     (True, ring\<lparr>ring_written := ring_written ring @
        [PACKET0 K mmUVD_SEMA_ADDR_LOW 0, ucast (take_bit 20 (drop_bit 3 addr)),
         PACKET0 K mmUVD_SEMA_ADDR_HIGH 0, ucast (take_bit 20 (drop_bit 23 addr)),
         PACKET0 K mmUVD_SEMA_CMD 0, 0x80 + (if emit_wait then 1 else 0)]\<rparr>)"
  by (simp add: uvd_v6_0_ring_emit_semaphore_def amdgpu_ring_write_def and_mask20)

text \<open>
  Claim C4, as amended. For every address and sequence number, the fence packet is exactly
  fourteen ring words (seven tag and value pairs): the context id tag with the low 32 bits
  of the sequence number, the low data tag with the low 32 bits of the address, the high
  data tag with bits 32--39 of the address (the upper half cut to 8 bits), the command
  tag with 0, then the low and high data tags again with 0 each, and the command tag with 2.
\<close>

theorem emit_fence_words:
  "uvd_v6_0_ring_emit_fence K ring addr seq fence_flags =
     ring\<lparr>ring_written := ring_written ring @
        [PACKET0 K mmUVD_CONTEXT_ID 0, ucast seq,
         PACKET0 K mmUVD_GPCOM_VCPU_DATA0 0, lower_32_bits addr,
         PACKET0 K mmUVD_GPCOM_VCPU_DATA1 0, upper_32_bits addr AND 0xff,
         PACKET0 K mmUVD_GPCOM_VCPU_CMD 0, 0,
         PACKET0 K mmUVD_GPCOM_VCPU_DATA0 0, 0,
         PACKET0 K mmUVD_GPCOM_VCPU_DATA1 0, 0,
         PACKET0 K mmUVD_GPCOM_VCPU_CMD 0, 2]\<rparr>"
  by (simp add: uvd_v6_0_ring_emit_fence_def amdgpu_ring_write_def lower_32_bits_def
      ucast_low32)

text \<open>
  Claim C4 as stated fails: on an empty ring the fence packet for the address
  0x10000000000 and the sequence number 7 has fourteen words, not twelve, and its high
  data slot holds 0 although the upper half of the address is 0x100.
\<close>

theorem emit_fence_counterexample:
  "length (ring_written (uvd_v6_0_ring_emit_fence sample_consts (sample_dev (\<lambda>r n. 0))
      0x10000000000 7 0)) = 14
   \<and> length (ring_written (uvd_v6_0_ring_emit_fence sample_consts (sample_dev (\<lambda>r n. 0))
      0x10000000000 7 0)) \<noteq> 12
   \<and> ring_written (uvd_v6_0_ring_emit_fence sample_consts (sample_dev (\<lambda>r n. 0))
      0x10000000000 7 0) ! 5 = 0
   \<and> upper_32_bits 0x10000000000 = 0x100"
  by (simp add: uvd_v6_0_ring_emit_fence_def amdgpu_ring_write_def sample_dev_def
      upper_32_bits_def)

subsection \<open>Interrupt state\<close>

text \<open>
  Claim C9, as amended. For every device, source, type and requested state,
  \<^verbatim>\<open>set_interrupt_state\<close> writes no register, leaves the whole device state unchanged
  and returns 0, the success result.
\<close>

theorem set_interrupt_state_noop:
  "uvd_v6_0_set_interrupt_state s source type state = (0, s)"
  by (simp add: uvd_v6_0_set_interrupt_state_def)

text \<open>
  Claim C9 as stated fails: asked to enable interrupt type 0 on the sample device, the
  function returns 0, which is the success result and not a "not implemented" error.
\<close>

theorem set_interrupt_state_counterexample:
  "fst (uvd_v6_0_set_interrupt_state (sample_dev (\<lambda>r n. 0)) () 0 AMDGPU_IRQ_STATE_ENABLE) = 0"
  by (simp add: uvd_v6_0_set_interrupt_state_def)

subsection \<open>Suspend\<close>

text \<open>
  Claim C10. On a device that is not an APU, when the memory-resource release step fails
  with the result \<open>r\<close> and leaves the state \<open>s'\<close>, suspend returns \<open>r\<close> with exactly
  that state: nothing of \<^verbatim>\<open>hw_fini\<close> runs, so no register access of stop is appended to
  the trace and the ready flag of the ring is the one the release step left.
\<close>

theorem suspend_release_failure:
  assumes "flags s AND AMD_IS_APU K = 0"
      and "amdgpu_uvd_suspend X s = (r, s')"
      and "r \<noteq> 0"
  shows "uvd_v6_0_suspend X K s = (r, s')
         \<and> trace (snd (uvd_v6_0_suspend X K s)) = trace s'
         \<and> ring_ready (snd (uvd_v6_0_suspend X K s)) = ring_ready s'"
  using assms by (simp add: uvd_v6_0_suspend_def)

theorem suspend_release_failure_witness:
  "flags (sample_dev (\<lambda>r n. 0)\<lparr>ring_ready := True\<rparr>) AND AMD_IS_APU sample_consts = 0
   \<and> amdgpu_uvd_suspend (sample_ext 0 (- 12)) (sample_dev (\<lambda>r n. 0)\<lparr>ring_ready := True\<rparr>)
       = (- 12, sample_dev (\<lambda>r n. 0)\<lparr>ring_ready := True\<rparr>)
   \<and> uvd_v6_0_suspend (sample_ext 0 (- 12)) sample_consts
        (sample_dev (\<lambda>r n. 0)\<lparr>ring_ready := True\<rparr>)
       = (- 12, sample_dev (\<lambda>r n. 0)\<lparr>ring_ready := True\<rparr>)
   \<and> trace (snd (uvd_v6_0_suspend (sample_ext 0 (- 12)) sample_consts
        (sample_dev (\<lambda>r n. 0)\<lparr>ring_ready := True\<rparr>))) = []
   \<and> ring_ready (snd (uvd_v6_0_suspend (sample_ext 0 (- 12)) sample_consts
        (sample_dev (\<lambda>r n. 0)\<lparr>ring_ready := True\<rparr>)))"
  using suspend_release_failure
    [of "sample_dev (\<lambda>r n. 0)\<lparr>ring_ready := True\<rparr>" sample_consts "sample_ext 0 (- 12)"
        "- 12" "sample_dev (\<lambda>r n. 0)\<lparr>ring_ready := True\<rparr>"]
  by (simp add: sample_dev_def sample_consts_def sample_ext_def)

subsection \<open>Idle queries\<close>

lemma wait_for_idle_loop_Suc:
  "wait_for_idle_loop K (Suc n) s =
     (if next_read s mmSRBM_STATUS AND SRBM_STATUS__UVD_BUSY_MASK K = 0
      then (0, snd (RREG32 mmSRBM_STATUS s))
      else wait_for_idle_loop K n (snd (RREG32 mmSRBM_STATUS s)))"
  by (simp add: split_def Let_def)

lemma wait_for_idle_loop_timeout:
  "(\<forall>i<n. hw_feed s mmSRBM_STATUS (nreads s mmSRBM_STATUS + i) AND SRBM_STATUS__UVD_BUSY_MASK K \<noteq> 0)
   \<Longrightarrow> fst (wait_for_idle_loop K n s) = - ETIMEDOUT
       \<and> nreads (snd (wait_for_idle_loop K n s)) mmSRBM_STATUS = nreads s mmSRBM_STATUS + n"
proof (induction n arbitrary: s)
  case 0
  then show ?case by simp
next
  case (Suc n)
  let ?s' = "snd (RREG32 mmSRBM_STATUS s)"
  from Suc.prems [rule_format, of 0]
  have busy0: "next_read s mmSRBM_STATUS AND SRBM_STATUS__UVD_BUSY_MASK K \<noteq> 0"
    by (simp add: next_read_hw)
  have "\<forall>i<n. hw_feed ?s' mmSRBM_STATUS (nreads ?s' mmSRBM_STATUS + i)
            AND SRBM_STATUS__UVD_BUSY_MASK K \<noteq> 0"
    using Suc.prems by auto
  from Suc.IH [OF this] busy0 show ?case
    by (simp add: wait_for_idle_loop_Suc del: wait_for_idle_loop.simps)
qed

lemma wait_for_idle_loop_success:
  "j < n \<Longrightarrow>
   (\<forall>i<j. hw_feed s mmSRBM_STATUS (nreads s mmSRBM_STATUS + i) AND SRBM_STATUS__UVD_BUSY_MASK K \<noteq> 0)
   \<Longrightarrow> hw_feed s mmSRBM_STATUS (nreads s mmSRBM_STATUS + j) AND SRBM_STATUS__UVD_BUSY_MASK K = 0
   \<Longrightarrow> fst (wait_for_idle_loop K n s) = 0
       \<and> nreads (snd (wait_for_idle_loop K n s)) mmSRBM_STATUS = nreads s mmSRBM_STATUS + j + 1"
proof (induction n arbitrary: s j)
  case 0
  then show ?case by simp
next
  case (Suc n)
  let ?s' = "snd (RREG32 mmSRBM_STATUS s)"
  show ?case
  proof (cases j)
    case 0
    with Suc.prems show ?thesis
      by (simp add: wait_for_idle_loop_Suc next_read_hw del: wait_for_idle_loop.simps)
  next
    case (Suc j')
    from Suc.prems(2) [rule_format, of 0] Suc
    have busy0: "next_read s mmSRBM_STATUS AND SRBM_STATUS__UVD_BUSY_MASK K \<noteq> 0"
      by (simp add: next_read_hw)
    have a: "j' < n" using Suc Suc.prems by simp
    have b: "\<forall>i<j'. hw_feed ?s' mmSRBM_STATUS (nreads ?s' mmSRBM_STATUS + i)
            AND SRBM_STATUS__UVD_BUSY_MASK K \<noteq> 0"
      using Suc.prems Suc by auto
    have c: "hw_feed ?s' mmSRBM_STATUS (nreads ?s' mmSRBM_STATUS + j')
            AND SRBM_STATUS__UVD_BUSY_MASK K = 0"
      using Suc.prems Suc by simp
    from Suc.IH [OF a b c] busy0 Suc show ?thesis
      by (simp add: wait_for_idle_loop_Suc del: wait_for_idle_loop.simps)
  qed
qed

lemma wait_for_idle_loop_bound:
  "nreads (snd (wait_for_idle_loop K n s)) mmSRBM_STATUS \<le> nreads s mmSRBM_STATUS + n"
proof (induction n arbitrary: s)
  case 0
  then show ?case by simp
next
  case (Suc n)
  from Suc.IH [of "snd (RREG32 mmSRBM_STATUS s)"] show ?case
    by (simp add: wait_for_idle_loop_Suc del: wait_for_idle_loop.simps)
qed

text \<open>
  Claim C8. \<^verbatim>\<open>wait_for_idle\<close> reads the SRBM status register at most
  \<^verbatim>\<open>usec_timeout\<close> times. If the busy bit is first seen clear on poll \<open>j + 1\<close>,
  within the bound, it returns 0 right after that poll; if the bit is set on every poll of
  the bound, it returns \<open>- ETIMEDOUT\<close>, which is not 0, after exactly
  \<^verbatim>\<open>usec_timeout\<close> polls. \<^verbatim>\<open>is_idle\<close> returns true exactly when the busy bit of
  the value it reads is clear.
\<close>

theorem wait_for_idle_bounded:
  "nreads (snd (uvd_v6_0_wait_for_idle K s)) mmSRBM_STATUS
     \<le> nreads s mmSRBM_STATUS + unat (usec_timeout s)
   \<and> (j < unat (usec_timeout s)
      \<and> (\<forall>i<j. hw_feed s mmSRBM_STATUS (nreads s mmSRBM_STATUS + i)
                AND SRBM_STATUS__UVD_BUSY_MASK K \<noteq> 0)
      \<and> hw_feed s mmSRBM_STATUS (nreads s mmSRBM_STATUS + j)
                AND SRBM_STATUS__UVD_BUSY_MASK K = 0
      \<longrightarrow> fst (uvd_v6_0_wait_for_idle K s) = 0
        \<and> nreads (snd (uvd_v6_0_wait_for_idle K s)) mmSRBM_STATUS
            = nreads s mmSRBM_STATUS + j + 1)
   \<and> ((\<forall>i<unat (usec_timeout s). hw_feed s mmSRBM_STATUS (nreads s mmSRBM_STATUS + i)
                AND SRBM_STATUS__UVD_BUSY_MASK K \<noteq> 0)
      \<longrightarrow> fst (uvd_v6_0_wait_for_idle K s) = - ETIMEDOUT
        \<and> nreads (snd (uvd_v6_0_wait_for_idle K s)) mmSRBM_STATUS
            = nreads s mmSRBM_STATUS + unat (usec_timeout s))
   \<and> - ETIMEDOUT \<noteq> 0
   \<and> fst (uvd_v6_0_is_idle K s)
       = (hw_feed s mmSRBM_STATUS (nreads s mmSRBM_STATUS) AND SRBM_STATUS__UVD_BUSY_MASK K = 0)"
  using wait_for_idle_loop_bound [of K "unat (usec_timeout s)" s]
        wait_for_idle_loop_success [of j "unat (usec_timeout s)" s K]
        wait_for_idle_loop_timeout [of "unat (usec_timeout s)" s K]
  by (simp add: uvd_v6_0_wait_for_idle_def uvd_v6_0_is_idle_def split_def next_read_hw ETIMEDOUT_def)

theorem wait_for_idle_bounded_witness:
  "fst (uvd_v6_0_wait_for_idle sample_consts
          (sample_dev (\<lambda>r n. if n < 3 then 0x80000 else 0))) = 0
   \<and> nreads (snd (uvd_v6_0_wait_for_idle sample_consts
          (sample_dev (\<lambda>r n. if n < 3 then 0x80000 else 0)))) mmSRBM_STATUS = 4
   \<and> fst (uvd_v6_0_wait_for_idle sample_consts (sample_dev (\<lambda>r n. 0x80000))) = - 110
   \<and> nreads (snd (uvd_v6_0_wait_for_idle sample_consts (sample_dev (\<lambda>r n. 0x80000))))
        mmSRBM_STATUS = 100000
   \<and> \<not> fst (uvd_v6_0_is_idle sample_consts (sample_dev (\<lambda>r n. 0x80000)))"
  using wait_for_idle_bounded [of sample_consts "sample_dev (\<lambda>r n. if n < 3 then 0x80000 else 0)" 3]
        wait_for_idle_bounded [of sample_consts "sample_dev (\<lambda>r n. 0x80000)" 0]
  by (simp add: sample_dev_def sample_consts_def ETIMEDOUT_def)

subsection \<open>Memory controller regions\<close>

lemma and_not_mask_push_drop: "(x :: u64) AND NOT (mask n) = push_bit n (drop_bit n x)"
  by (rule bit_word_eqI) (auto simp: bit_simps)

lemma unat_push_drop12: "unat (push_bit 12 (drop_bit 12 (x :: u64))) = (unat x div 4096) * 4096"
proof -
  have "unat (push_bit 12 (drop_bit 12 x)) = take_bit 64 (push_bit 12 (drop_bit 12 (unat x)))"
    by (simp add: unsigned_push_bit_eq unat_drop_bit_eq)
  also have "push_bit 12 (drop_bit 12 (unat x)) = (unat x div 4096) * 4096"
    by (simp add: push_bit_eq_mult drop_bit_eq_div)
  also have "take_bit 64 ((unat x div 4096) * 4096) = (unat x div 4096) * 4096"
  proof (rule take_bit_nat_eq_self)
    have "(unat x div 4096) * 4096 \<le> unat x" by simp
    also have "unat x < 2 ^ 64" using unsigned_less [of x] by simp
    finally show "(unat x div 4096) * 4096 < 2 ^ 64" .
  qed
  finally show ?thesis .
qed

lemma page_align_unat:
  assumes "unat a + 4095 < 2 ^ 64"
  shows "unat (AMDGPU_GPU_PAGE_ALIGN a) = ((unat a + 4095) div 4096) * 4096"
proof -
  have m: "AMDGPU_GPU_PAGE_MASK = mask 12"
    by (simp add: AMDGPU_GPU_PAGE_MASK_def AMDGPU_GPU_PAGE_SIZE_def mask_eq_exp_minus_1)
  have "unat (a + 4095) = unat a + unat (4095 :: u64)"
    using assms by (subst unat_add_lem [THEN iffD1]) simp_all
  then have s: "unat (a + 4095) = unat a + 4095" by simp
  have "AMDGPU_GPU_PAGE_ALIGN a = push_bit 12 (drop_bit 12 (a + 4095))"
    unfolding AMDGPU_GPU_PAGE_ALIGN_def m and_not_mask_push_drop
    by (simp add: mask_eq_exp_minus_1)
  then show ?thesis
    by (simp only: unat_push_drop12 s)
qed


lemma unat_ucast_down: "unat (w :: u64) < 2 ^ 32 \<Longrightarrow> unat (ucast w :: u32) = unat w"
  by (simp add: unsigned_ucast_eq take_bit_nat_eq_self)

lemma unat_ucast_up: "unat (ucast (w :: u32) :: u64) = unat w"
proof -
  have "unat w < 2 ^ 32" using unsigned_less [of w] by simp
  then have "unat w < 2 ^ 64" by simp
  then show ?thesis
    by (simp add: unsigned_ucast_eq take_bit_nat_eq_self)
qed

lemma mc_resume_regs:
  "map (regs (uvd_v6_0_mc_resume K s))
       [mmUVD_VCPU_CACHE_OFFSET0, mmUVD_VCPU_CACHE_SIZE0,
        mmUVD_VCPU_CACHE_OFFSET1, mmUVD_VCPU_CACHE_SIZE1,
        mmUVD_VCPU_CACHE_OFFSET2, mmUVD_VCPU_CACHE_SIZE2]
   = concat (map (\<lambda>(offset, size). [ucast (drop_bit 3 offset), size])
               (mc_regions K (uvd_fw_size s)))"
  by (simp add: uvd_v6_0_mc_resume_def mc_regions_def Let_def)

lemma mc_regions_unat:
  assumes fit: "unat f + 4 + 4095 < 2 ^ 32"
  defines "R \<equiv> ((unat f + 4 + 4095) div 4096) * 4096"
  shows "unat (fst (mc_regions K f ! 0)) = unat (AMDGPU_UVD_FIRMWARE_OFFSET K)"
    and "unat (snd (mc_regions K f ! 0)) = R"
    and "unat (fst (mc_regions K f ! 1)) = unat (AMDGPU_UVD_FIRMWARE_OFFSET K) + R"
    and "unat (fst (mc_regions K f ! 2)) =
           unat (AMDGPU_UVD_FIRMWARE_OFFSET K) + R + unat (AMDGPU_UVD_STACK_SIZE K)"
    and "4096 \<le> R" and "R < 2 ^ 32"
proof -
  have f4: "unat (f + 4) = unat f + 4"
    using fit by (subst unat_add_lem [THEN iffD1]) simp_all
  have "unat (AMDGPU_GPU_PAGE_ALIGN (f + 4)) = R"
    unfolding R_def using fit by (subst page_align_unat) (simp_all add: f4)
  moreover show Rlt: "R < 2 ^ 32"
    using fit unfolding R_def by (simp add: less_eq_div_iff_mult_less_eq)
  ultimately have s0: "unat (ucast (AMDGPU_GPU_PAGE_ALIGN (f + 4)) :: u32) = R"
    by (simp add: unat_ucast_down)
  show o0: "unat (fst (mc_regions K f ! 0)) = unat (AMDGPU_UVD_FIRMWARE_OFFSET K)"
    by (simp add: mc_regions_def Let_def unat_ucast_up)
  show "unat (snd (mc_regions K f ! 0)) = R"
    using s0 by (simp add: mc_regions_def Let_def)
  show "4096 \<le> R"
    unfolding R_def by simp
  have fo: "unat (AMDGPU_UVD_FIRMWARE_OFFSET K) < 2 ^ 32"
    using unsigned_less [of "AMDGPU_UVD_FIRMWARE_OFFSET K"] by simp
  have st: "unat (AMDGPU_UVD_STACK_SIZE K) < 2 ^ 32"
    using unsigned_less [of "AMDGPU_UVD_STACK_SIZE K"] by simp
  have o1: "unat (ucast (AMDGPU_UVD_FIRMWARE_OFFSET K)
                  + ucast (ucast (AMDGPU_GPU_PAGE_ALIGN (f + 4)) :: u32) :: u64)
            = unat (AMDGPU_UVD_FIRMWARE_OFFSET K) + R"
    using fo Rlt s0 by (subst unat_add_lem [THEN iffD1]) (simp_all add: unat_ucast_up)
  then show "unat (fst (mc_regions K f ! 1)) = unat (AMDGPU_UVD_FIRMWARE_OFFSET K) + R"
    by (simp add: mc_regions_def Let_def)
  have "unat (ucast (AMDGPU_UVD_FIRMWARE_OFFSET K)
                  + ucast (ucast (AMDGPU_GPU_PAGE_ALIGN (f + 4)) :: u32)
                  + ucast (AMDGPU_UVD_STACK_SIZE K) :: u64)
            = unat (AMDGPU_UVD_FIRMWARE_OFFSET K) + R + unat (AMDGPU_UVD_STACK_SIZE K)"
    using fo Rlt st o1 by (subst unat_add_lem [THEN iffD1]) (simp_all add: unat_ucast_up)
  then show "unat (fst (mc_regions K f ! 2)) =
           unat (AMDGPU_UVD_FIRMWARE_OFFSET K) + R + unat (AMDGPU_UVD_STACK_SIZE K)"
    by (simp add: mc_regions_def Let_def)
qed


text \<open>
  Claim C3, as amended. For every firmware size whose rounded size fits the 32-bit size
  variable (\<open>fw_size + 4 + 4095 < 2 ^ 32\<close>) and a stack size constant that is not zero,
  \<^verbatim>\<open>uvd_v6_0_mc_resume\<close> computes three contiguous regions: region 0 starts at the
  firmware base offset and its size is \<open>fw_size + 4\<close> rounded up to the page size 4096;
  region 1 starts at the start of region 0 plus its size and has the stack size; region 2
  starts at the start of region 1 plus the stack size and has the heap size. The starts are
  strictly increasing. The size of region 0 is a multiple of the page size, so region 1
  starts at the same offset within a page as region 0; the starts themselves are not
  page-aligned unless the header constants are. Each offset register receives the start
  shifted right by 3, each size register the size.
\<close>

theorem mc_resume_regions:
  assumes "unat (uvd_fw_size s) + 4 + 4095 < 2 ^ 32"
      and "AMDGPU_UVD_STACK_SIZE K \<noteq> 0"
  shows "length (mc_regions K (uvd_fw_size s)) = 3
    \<and> unat (fst (mc_regions K (uvd_fw_size s) ! 0)) = unat (AMDGPU_UVD_FIRMWARE_OFFSET K)
    \<and> unat (snd (mc_regions K (uvd_fw_size s) ! 0))
        = ((unat (uvd_fw_size s) + 4 + 4095) div 4096) * 4096
    \<and> unat (fst (mc_regions K (uvd_fw_size s) ! 1))
        = unat (fst (mc_regions K (uvd_fw_size s) ! 0))
          + unat (snd (mc_regions K (uvd_fw_size s) ! 0))
    \<and> snd (mc_regions K (uvd_fw_size s) ! 1) = AMDGPU_UVD_STACK_SIZE K
    \<and> unat (fst (mc_regions K (uvd_fw_size s) ! 2))
        = unat (fst (mc_regions K (uvd_fw_size s) ! 1))
          + unat (snd (mc_regions K (uvd_fw_size s) ! 1))
    \<and> snd (mc_regions K (uvd_fw_size s) ! 2) = AMDGPU_UVD_HEAP_SIZE K
    \<and> fst (mc_regions K (uvd_fw_size s) ! 0) < fst (mc_regions K (uvd_fw_size s) ! 1)
    \<and> fst (mc_regions K (uvd_fw_size s) ! 1) < fst (mc_regions K (uvd_fw_size s) ! 2)
    \<and> unat (snd (mc_regions K (uvd_fw_size s) ! 0)) mod 4096 = 0
    \<and> unat (fst (mc_regions K (uvd_fw_size s) ! 1)) mod 4096
        = unat (fst (mc_regions K (uvd_fw_size s) ! 0)) mod 4096
    \<and> map (regs (uvd_v6_0_mc_resume K s))
         [mmUVD_VCPU_CACHE_OFFSET0, mmUVD_VCPU_CACHE_SIZE0,
          mmUVD_VCPU_CACHE_OFFSET1, mmUVD_VCPU_CACHE_SIZE1,
          mmUVD_VCPU_CACHE_OFFSET2, mmUVD_VCPU_CACHE_SIZE2]
       = concat (map (\<lambda>(offset, size). [ucast (drop_bit 3 offset), size])
                   (mc_regions K (uvd_fw_size s)))"
proof -
  let ?rs = "mc_regions K (uvd_fw_size s)"
  let ?R = "((unat (uvd_fw_size s) + 4 + 4095) div 4096) * 4096"
  note u = mc_regions_unat [OF assms(1)]
  have st: "0 < unat (AMDGPU_UVD_STACK_SIZE K)"
    using assms(2) by (simp add: unat_gt_0)
  have s1: "snd (?rs ! 1) = AMDGPU_UVD_STACK_SIZE K" and s2: "snd (?rs ! 2) = AMDGPU_UVD_HEAP_SIZE K"
    and len: "length ?rs = 3"
    by (simp_all add: mc_regions_def Let_def)
  have lt01: "fst (?rs ! 0) < fst (?rs ! 1)"
    using u by (simp add: word_less_nat_alt)
  have lt12: "fst (?rs ! 1) < fst (?rs ! 2)"
    using u st by (simp add: word_less_nat_alt)
  have al: "unat (snd (?rs ! 0)) mod 4096 = 0"
    by (simp only: u(2)) simp
  have cong: "unat (fst (?rs ! 1)) mod 4096 = unat (fst (?rs ! 0)) mod 4096"
    by (simp only: u(1,3)) simp
  show ?thesis
    using len s1 s2 lt01 lt12 al cong u(1,2,3,4) mc_resume_regs [of K s]
    by (simp only: simp_thms) 
qed

theorem mc_resume_regions_witness:
  "unat (fst (mc_regions sample_consts (uvd_fw_size (sample_dev (\<lambda>r n. 0))) ! 0)) = 256
   \<and> unat (snd (mc_regions sample_consts (uvd_fw_size (sample_dev (\<lambda>r n. 0))) ! 0)) = 102400
   \<and> unat (fst (mc_regions sample_consts (uvd_fw_size (sample_dev (\<lambda>r n. 0))) ! 1)) = 256 + 102400
   \<and> fst (mc_regions sample_consts (uvd_fw_size (sample_dev (\<lambda>r n. 0))) ! 0)
       < fst (mc_regions sample_consts (uvd_fw_size (sample_dev (\<lambda>r n. 0))) ! 1)
   \<and> fst (mc_regions sample_consts (uvd_fw_size (sample_dev (\<lambda>r n. 0))) ! 1)
       < fst (mc_regions sample_consts (uvd_fw_size (sample_dev (\<lambda>r n. 0))) ! 2)"
proof -
  have a: "unat (uvd_fw_size (sample_dev (\<lambda>r n. 0))) + 4 + 4095 < 2 ^ 32"
    by (simp add: sample_dev_def)
  have b: "AMDGPU_UVD_STACK_SIZE sample_consts \<noteq> 0"
    by (simp add: sample_consts_def)
  have c: "AMDGPU_UVD_FIRMWARE_OFFSET sample_consts = 256"
    by (simp add: sample_consts_def)
  have d: "unat (uvd_fw_size (sample_dev (\<lambda>r n. 0))) = 100000"
    by (simp add: sample_dev_def)
  from mc_resume_regions [OF a b] show ?thesis
    by (simp add: c d)
qed

text \<open>
  Claim C3 as stated fails. With the firmware base offset 256 and the firmware size 100000,
  region 0 starts at 256 and region 1 at 102656, neither a multiple of 4096. With the
  firmware size 0xFFFFFFFC the rounded size 2 ^ 32 does not fit the 32-bit variable: the
  size of region 0 is 0 and region 1 does not start after region 0.
\<close>

theorem mc_resume_regions_counterexample:
  "unat (fst (mc_regions sample_consts 100000 ! 0)) mod 4096 \<noteq> 0
   \<and> unat (fst (mc_regions sample_consts 100000 ! 1)) mod 4096 \<noteq> 0
   \<and> snd (mc_regions sample_consts 0xFFFFFFFC ! 0) = 0
   \<and> \<not> fst (mc_regions sample_consts 0xFFFFFFFC ! 0) < fst (mc_regions sample_consts 0xFFFFFFFC ! 1)"
  by (simp add: mc_regions_def sample_consts_def Let_def AMDGPU_GPU_PAGE_ALIGN_def
      AMDGPU_GPU_PAGE_MASK_def AMDGPU_GPU_PAGE_SIZE_def)

subsection \<open>Start: the boot poll\<close>

lemma status_poll_step_sel [simp]:
  "regs (status_poll_step s) = regs s"
  "hw_feed (status_poll_step s) = hw_feed s"
  "nreads (status_poll_step s) = (nreads s)(mmUVD_STATUS := Suc (nreads s mmUVD_STATUS))"
  "ring_ready (status_poll_step s) = ring_ready s"
  by (simp_all add: status_poll_step_def)

lemma status_poll_steps_sel [simp]:
  "regs ((status_poll_step ^^ n) s) = regs s"
  "hw_feed ((status_poll_step ^^ n) s) = hw_feed s"
  "nreads ((status_poll_step ^^ n) s) = (nreads s)(mmUVD_STATUS := nreads s mmUVD_STATUS + n)"
  "ring_ready ((status_poll_step ^^ n) s) = ring_ready s"
  by (induction n) simp_all

lemma vcpu_reset_pulse_sel [simp]:
  "hw_feed (vcpu_reset_pulse K s) = hw_feed s"
  "nreads (vcpu_reset_pulse K s) = (nreads s)(mmUVD_SOFT_RESET := nreads s mmUVD_SOFT_RESET + 2)"
  "ring_ready (vcpu_reset_pulse K s) = ring_ready s"
  by (simp_all add: vcpu_reset_pulse_def Let_def)

lemma failed_boot_attempt_sel [simp]:
  "hw_feed (failed_boot_attempt K s) = hw_feed s"
  "nreads (failed_boot_attempt K s) =
     (nreads s)(mmUVD_STATUS := nreads s mmUVD_STATUS + 100,
                mmUVD_SOFT_RESET := nreads s mmUVD_SOFT_RESET + 2)"
  "ring_ready (failed_boot_attempt K s) = ring_ready s"
  by (simp_all add: failed_boot_attempt_def fun_upd_twist)

lemma failed_boot_attempts_sel [simp]:
  "hw_feed ((failed_boot_attempt K ^^ n) s) = hw_feed s"
  "nreads ((failed_boot_attempt K ^^ n) s) =
     (nreads s)(mmUVD_STATUS := nreads s mmUVD_STATUS + 100 * n,
                mmUVD_SOFT_RESET := nreads s mmUVD_SOFT_RESET + 2 * n)"
  "ring_ready ((failed_boot_attempt K ^^ n) s) = ring_ready s"
  by (induction n) (simp_all add: fun_upd_twist add_ac)

lemma boot_poll_inner_Suc:
  "boot_poll_inner (Suc n) status s =
     (if next_read s mmUVD_STATUS AND 2 \<noteq> 0
      then (next_read s mmUVD_STATUS, snd (RREG32 mmUVD_STATUS s))
      else boot_poll_inner n (next_read s mmUVD_STATUS) (status_poll_step s))"
  by (simp add: split_def Let_def status_poll_step_def)

lemma boot_poll_inner_fail:
  "(\<forall>i<n. hw_feed s mmUVD_STATUS (nreads s mmUVD_STATUS + i) AND 2 = 0)
   \<Longrightarrow> status AND 2 = 0
   \<Longrightarrow> snd (boot_poll_inner n status s) = (status_poll_step ^^ n) s
       \<and> fst (boot_poll_inner n status s) AND 2 = 0"
proof (induction n arbitrary: s status)
  case 0
  then show ?case by simp
next
  case (Suc n)
  from Suc.prems(1) [rule_format, of 0]
  have clear0: "next_read s mmUVD_STATUS AND 2 = 0"
    by (simp add: next_read_hw)
  have rest: "\<forall>i<n. hw_feed (status_poll_step s) mmUVD_STATUS
                 (nreads (status_poll_step s) mmUVD_STATUS + i) AND 2 = 0"
    using Suc.prems(1) by auto
  from Suc.IH [OF rest clear0] clear0 show ?case
    by (simp add: boot_poll_inner_Suc funpow_swap1 del: boot_poll_inner.simps)
qed

lemma boot_poll_inner_success:
  "j < n
   \<Longrightarrow> (\<forall>i<j. hw_feed s mmUVD_STATUS (nreads s mmUVD_STATUS + i) AND 2 = 0)
   \<Longrightarrow> hw_feed s mmUVD_STATUS (nreads s mmUVD_STATUS + j) AND 2 \<noteq> 0
   \<Longrightarrow> snd (boot_poll_inner n status s) = snd (RREG32 mmUVD_STATUS ((status_poll_step ^^ j) s))
       \<and> fst (boot_poll_inner n status s) AND 2 \<noteq> 0"
proof (induction n arbitrary: s status j)
  case 0
  then show ?case by simp
next
  case (Suc n)
  show ?case
  proof (cases j)
    case 0
    with Suc.prems show ?thesis
      by (simp add: boot_poll_inner_Suc next_read_hw del: boot_poll_inner.simps)
  next
    case (Suc j')
    from Suc.prems(2) [rule_format, of 0] Suc
    have clear0: "next_read s mmUVD_STATUS AND 2 = 0"
      by (simp add: next_read_hw)
    have a: "j' < n" using Suc Suc.prems by simp
    have b: "\<forall>i<j'. hw_feed (status_poll_step s) mmUVD_STATUS
                 (nreads (status_poll_step s) mmUVD_STATUS + i) AND 2 = 0"
      using Suc.prems(2) Suc by auto
    have c: "hw_feed (status_poll_step s) mmUVD_STATUS
                 (nreads (status_poll_step s) mmUVD_STATUS + j') AND 2 \<noteq> 0"
      using Suc.prems(3) Suc by simp
    from Suc.IH [OF a b c] clear0 Suc show ?thesis
      by (simp add: boot_poll_inner_Suc funpow_swap1 del: boot_poll_inner.simps)
  qed
qed

lemma boot_poll_outer_Suc:
  "boot_poll_outer K (Suc n) r s =
     (if fst (boot_poll_inner 100 0 s) AND 2 \<noteq> 0
      then (0, snd (boot_poll_inner 100 0 s))
      else boot_poll_outer K n (- 1) (vcpu_reset_pulse K (snd (boot_poll_inner 100 0 s))))"
  by (simp add: split_def Let_def)


lemma boot_poll_outer_success:
  "m < n \<Longrightarrow> j < 100
   \<Longrightarrow> (\<forall>i<100 * m + j. hw_feed s mmUVD_STATUS (nreads s mmUVD_STATUS + i) AND 2 = 0)
   \<Longrightarrow> hw_feed s mmUVD_STATUS (nreads s mmUVD_STATUS + (100 * m + j)) AND 2 \<noteq> 0
   \<Longrightarrow> boot_poll_outer K n r s =
         (0, snd (RREG32 mmUVD_STATUS ((status_poll_step ^^ j) ((failed_boot_attempt K ^^ m) s))))"
proof (induction n arbitrary: s r m)
  case 0
  then show ?case by simp
next
  case (Suc n)
  show ?case
  proof (cases m)
    case 0
    with Suc.prems boot_poll_inner_success [of j 100 s 0] show ?thesis
      by (simp add: boot_poll_outer_Suc del: boot_poll_outer.simps)
  next
    case (Suc m')
    have first: "\<forall>i<100. hw_feed s mmUVD_STATUS (nreads s mmUVD_STATUS + i) AND 2 = 0"
      using Suc.prems(3) Suc by simp
    note inner = boot_poll_inner_fail [OF first, of 0, simplified]
    have a: "m' < n" using Suc Suc.prems by simp
    have b: "\<forall>i<100 * m' + j. hw_feed (failed_boot_attempt K s) mmUVD_STATUS
                 (nreads (failed_boot_attempt K s) mmUVD_STATUS + i) AND 2 = 0"
    proof (intro allI impI)
      fix i assume "i < 100 * m' + j"
      then have "100 + i < 100 * m + j" using Suc by simp
      from Suc.prems(3) [rule_format, OF this]
      show "hw_feed (failed_boot_attempt K s) mmUVD_STATUS
                 (nreads (failed_boot_attempt K s) mmUVD_STATUS + i) AND 2 = 0"
        by (simp add: add.assoc)
    qed
    have c: "hw_feed (failed_boot_attempt K s) mmUVD_STATUS
                 (nreads (failed_boot_attempt K s) mmUVD_STATUS + (100 * m' + j)) AND 2 \<noteq> 0"
      using Suc.prems(4) Suc by (simp add: add.assoc)
    from Suc.IH [OF a Suc.prems(2) b c, of "- 1"] inner Suc show ?thesis
      by (simp add: boot_poll_outer_Suc failed_boot_attempt_def [symmetric] funpow_swap1
          del: boot_poll_outer.simps)
  qed
qed


lemma start_prepare_sel [simp]:
  "hw_feed (start_prepare K s) = hw_feed s"
  "nreads (start_prepare K s) mmUVD_STATUS = nreads s mmUVD_STATUS"
  "nreads (start_prepare K s) mmUVD_SOFT_RESET = nreads s mmUVD_SOFT_RESET"
  "ring_ready (start_prepare K s) = ring_ready s"
  by (simp_all add: start_prepare_def uvd_v6_0_mc_resume_def Let_def)

lemma start_finish_sel [simp]:
  "hw_feed (start_finish K s) = hw_feed s"
  "nreads (start_finish K s) mmUVD_SOFT_RESET = nreads s mmUVD_SOFT_RESET"
  "ring_ready (start_finish K s) = ring_ready s"
  by (simp_all add: start_finish_def Let_def split_def)


lemma start_booted_at:
  assumes "m < 10" and "j < 100"
      and "\<forall>i<100 * m + j. hw_feed s mmUVD_STATUS (nreads s mmUVD_STATUS + i) AND 2 = 0"
      and "hw_feed s mmUVD_STATUS (nreads s mmUVD_STATUS + (100 * m + j)) AND 2 \<noteq> 0"
  shows "uvd_v6_0_start K s =
           (0, start_finish K (snd (RREG32 mmUVD_STATUS
                 ((status_poll_step ^^ j) ((failed_boot_attempt K ^^ m) (start_prepare K s))))))"
proof -
  have a: "\<forall>i<100 * m + j. hw_feed (start_prepare K s) mmUVD_STATUS
            (nreads (start_prepare K s) mmUVD_STATUS + i) AND 2 = 0"
    using assms(3) by simp
  have b: "hw_feed (start_prepare K s) mmUVD_STATUS
            (nreads (start_prepare K s) mmUVD_STATUS + (100 * m + j)) AND 2 \<noteq> 0"
    using assms(4) by simp
  from boot_poll_outer_success [OF assms(1,2) a b, of K 0] show ?thesis
    by (simp add: uvd_v6_0_start_def)
qed

lemma events_of_append: "trace s' = trace s @ t \<Longrightarrow> events_of s s' = t"
  by (simp add: events_of_def)













subsection \<open>Soft reset\<close>

lemma boot_poll_inner_trace:
  "\<exists>t. trace (snd (boot_poll_inner n status s)) = trace s @ t"
proof (induction n arbitrary: s status)
  case 0
  show ?case by simp
next
  case (Suc n)
  from Suc.IH [of "next_read s mmUVD_STATUS" "status_poll_step s"]
  obtain t where "trace (snd (boot_poll_inner n (next_read s mmUVD_STATUS) (status_poll_step s)))
                    = trace (status_poll_step s) @ t"
    by blast
  then show ?case
    by (simp add: boot_poll_inner_Suc status_poll_step_def del: boot_poll_inner.simps)
qed

lemma boot_poll_inner_regs:
  "regs (snd (boot_poll_inner n status s)) = regs s"
proof (induction n arbitrary: s status)
  case 0
  show ?case by simp
next
  case (Suc n)
  from Suc.IH [of "next_read s mmUVD_STATUS" "status_poll_step s"] show ?case
    by (simp add: boot_poll_inner_Suc del: boot_poll_inner.simps)
qed

lemma vcpu_reset_pulse_frame:
  "\<exists>t. trace (vcpu_reset_pulse K s) = trace s @ t"
  "r \<noteq> mmUVD_SOFT_RESET \<Longrightarrow> regs (vcpu_reset_pulse K s) r = regs s r"
  by (simp_all add: vcpu_reset_pulse_def Let_def)

lemma boot_poll_outer_trace:
  "\<exists>t. trace (snd (boot_poll_outer K n r s)) = trace s @ t"
proof (induction n arbitrary: s r)
  case 0
  show ?case by simp
next
  case (Suc n)
  let ?s1 = "snd (boot_poll_inner 100 0 s)"
  let ?s2 = "vcpu_reset_pulse K ?s1"
  obtain t1 where t1: "trace ?s1 = trace s @ t1"
    using boot_poll_inner_trace [of 100 0 s] by blast
  obtain t2 where t2: "trace ?s2 = trace ?s1 @ t2"
    using vcpu_reset_pulse_frame(1) [of K ?s1] by blast
  obtain t3 where t3: "trace (snd (boot_poll_outer K n (- 1) ?s2)) = trace ?s2 @ t3"
    using Suc.IH [of "- 1" ?s2] by blast
  show ?case
    by (simp add: boot_poll_outer_Suc t1 t2 t3 del: boot_poll_outer.simps)
qed

lemma boot_poll_outer_regs:
  "q \<noteq> mmUVD_SOFT_RESET \<Longrightarrow> regs (snd (boot_poll_outer K n r s)) q = regs s q"
proof (induction n arbitrary: s r)
  case 0
  show ?case by simp
next
  case (Suc n)
  from Suc.IH [OF Suc.prems, of "- 1" "vcpu_reset_pulse K (snd (boot_poll_inner 100 0 s))"]
    Suc.prems
  show ?case
    by (simp add: boot_poll_outer_Suc boot_poll_inner_regs vcpu_reset_pulse_frame(2)
        del: boot_poll_outer.simps)
qed

lemma start_prepare_frame:
  "\<exists>t. trace (start_prepare K s) = trace s @ t"
  "regs (start_prepare K s) mmSRBM_SOFT_RESET =
     regs s mmSRBM_SOFT_RESET AND NOT (SRBM_SOFT_RESET__SOFT_RESET_UVD_MASK K)"
  by (simp_all add: start_prepare_def uvd_v6_0_mc_resume_def Let_def next_read_plain)

lemma start_finish_frame:
  "\<exists>t. trace (start_finish K s) = trace s @ t"
  "regs (start_finish K s) mmSRBM_SOFT_RESET = regs s mmSRBM_SOFT_RESET"
  by (simp_all add: start_finish_def Let_def split_def)

lemma start_frame:
  "\<exists>t. trace (snd (uvd_v6_0_start K s)) = trace s @ t"
  "regs (snd (uvd_v6_0_start K s)) mmSRBM_SOFT_RESET =
     regs s mmSRBM_SOFT_RESET AND NOT (SRBM_SOFT_RESET__SOFT_RESET_UVD_MASK K)"
proof -
  let ?s1 = "start_prepare K s"
  let ?s2 = "snd (boot_poll_outer K 10 0 ?s1)"
  obtain t1 where t1: "trace ?s1 = trace s @ t1"
    using start_prepare_frame(1) [of K s] by blast
  obtain t2 where t2: "trace ?s2 = trace ?s1 @ t2"
    using boot_poll_outer_trace [of K 10 0 ?s1] by blast
  obtain t3 where t3: "trace (start_finish K ?s2) = trace ?s2 @ t3"
    using start_finish_frame(1) [of K ?s2] by blast
  show "\<exists>t. trace (snd (uvd_v6_0_start K s)) = trace s @ t"
    by (simp add: uvd_v6_0_start_def split_def Let_def t1 t2 t3)
  show "regs (snd (uvd_v6_0_start K s)) mmSRBM_SOFT_RESET =
     regs s mmSRBM_SOFT_RESET AND NOT (SRBM_SOFT_RESET__SOFT_RESET_UVD_MASK K)"
    by (simp add: uvd_v6_0_start_def split_def Let_def start_finish_frame(2)
        boot_poll_outer_regs start_prepare_frame(2))
qed

lemma WREG32_P_set_bits:
  "WREG32_P r m (NOT m) s = WREG32 r (next_read s r OR m) (snd (RREG32 r s))"
  by (simp add: WREG32_P_def split_def Let_def set_then_clear_gen)

lemma srbm_assert_uvd_reset_sel:
  "trace (srbm_assert_uvd_reset K s) = trace s @
     [EvRead mmSRBM_SOFT_RESET (regs s mmSRBM_SOFT_RESET),
      EvWrite mmSRBM_SOFT_RESET
        (regs s mmSRBM_SOFT_RESET OR SRBM_SOFT_RESET__SOFT_RESET_UVD_MASK K)]"
  "regs (srbm_assert_uvd_reset K s) mmSRBM_SOFT_RESET =
     regs s mmSRBM_SOFT_RESET OR SRBM_SOFT_RESET__SOFT_RESET_UVD_MASK K"
  by (simp_all add: srbm_assert_uvd_reset_def split_def Let_def next_read_plain)

lemma soft_reset_eq_spec: "uvd_v6_0_soft_reset K s = soft_reset_spec K s"
  by (simp add: uvd_v6_0_soft_reset_def soft_reset_spec_def Let_def WREG32_P_set_bits
      srbm_assert_uvd_reset_def split_def)

text \<open>
  Claim C6. The soft reset is the composition the specification gives: stop, then the UVD
  bit of the system soft-reset register set and held for 5 ms, then start, whose result it
  returns. Its trace is the events of stop, then the read and the write that set the bit
  and the 5 ms delay, then the events of start. The bit is set when start begins and clear
  again when the soft reset returns.
\<close>

theorem soft_reset_stop_pulse_start:
  "uvd_v6_0_soft_reset K s = soft_reset_spec K s
   \<and> uvd_v6_0_soft_reset K s
       = uvd_v6_0_start K (mdelay 5 (srbm_assert_uvd_reset K (uvd_v6_0_stop K s)))
   \<and> trace (snd (uvd_v6_0_soft_reset K s)) =
       trace s
       @ events_of s (uvd_v6_0_stop K s)
       @ [EvRead mmSRBM_SOFT_RESET (regs s mmSRBM_SOFT_RESET),
          EvWrite mmSRBM_SOFT_RESET
            (regs s mmSRBM_SOFT_RESET OR SRBM_SOFT_RESET__SOFT_RESET_UVD_MASK K),
          EvDelay 5]
       @ events_of (mdelay 5 (srbm_assert_uvd_reset K (uvd_v6_0_stop K s)))
           (snd (uvd_v6_0_start K (mdelay 5 (srbm_assert_uvd_reset K (uvd_v6_0_stop K s)))))
   \<and> regs (mdelay 5 (srbm_assert_uvd_reset K (uvd_v6_0_stop K s))) mmSRBM_SOFT_RESET
         AND SRBM_SOFT_RESET__SOFT_RESET_UVD_MASK K
       = SRBM_SOFT_RESET__SOFT_RESET_UVD_MASK K
   \<and> regs (snd (uvd_v6_0_soft_reset K s)) mmSRBM_SOFT_RESET
         AND SRBM_SOFT_RESET__SOFT_RESET_UVD_MASK K = 0"
proof -
  let ?s1 = "uvd_v6_0_stop K s"
  let ?s2 = "mdelay 5 (srbm_assert_uvd_reset K ?s1)"
  let ?m = "SRBM_SOFT_RESET__SOFT_RESET_UVD_MASK K"
  have eq: "uvd_v6_0_soft_reset K s = uvd_v6_0_start K ?s2"
    by (simp add: soft_reset_eq_spec soft_reset_spec_def)
  have srbm1: "regs ?s1 mmSRBM_SOFT_RESET = regs s mmSRBM_SOFT_RESET"
    by (simp add: stop_regs)
  obtain t1 where t1: "trace ?s1 = trace s @ t1"
    using stop_trace [of K s] by blast
  have t2: "trace ?s2 = trace ?s1 @
       [EvRead mmSRBM_SOFT_RESET (regs s mmSRBM_SOFT_RESET),
        EvWrite mmSRBM_SOFT_RESET (regs s mmSRBM_SOFT_RESET OR ?m), EvDelay 5]"
    by (simp add: srbm_assert_uvd_reset_sel srbm1)
  obtain t3 where t3: "trace (snd (uvd_v6_0_start K ?s2)) = trace ?s2 @ t3"
    using start_frame(1) [of K ?s2] by blast
  have e1: "events_of s ?s1 = t1"
    using t1 by (rule events_of_append)
  have e3: "events_of ?s2 (snd (uvd_v6_0_start K ?s2)) = t3"
    using t3 by (rule events_of_append)
  have tr: "trace (snd (uvd_v6_0_soft_reset K s)) =
       trace s @ events_of s ?s1
       @ [EvRead mmSRBM_SOFT_RESET (regs s mmSRBM_SOFT_RESET),
          EvWrite mmSRBM_SOFT_RESET (regs s mmSRBM_SOFT_RESET OR ?m), EvDelay 5]
       @ events_of ?s2 (snd (uvd_v6_0_start K ?s2))"
    unfolding e1 e3 eq by (simp only: t3 t2 t1 append_assoc)
  have set: "regs ?s2 mmSRBM_SOFT_RESET AND ?m = ?m"
    by (simp add: srbm_assert_uvd_reset_sel set_then_clear_gen)
  have clr: "regs (snd (uvd_v6_0_soft_reset K s)) mmSRBM_SOFT_RESET AND ?m = 0"
    unfolding eq by (simp only: start_frame(2) set_then_clear_gen)
  show ?thesis
    using soft_reset_eq_spec [of K s] eq tr set clr by (simp only: simp_thms)
qed

subsection \<open>Hardware init\<close>

lemma amdgpu_ring_write_sel [simp]:
  "hw_feed (amdgpu_ring_write v s) = hw_feed s"
  "nreads (amdgpu_ring_write v s) = nreads s"
  "usec_timeout (amdgpu_ring_write v s) = usec_timeout s"
  "ring_ready (amdgpu_ring_write v s) = ring_ready s"
  by (simp_all add: amdgpu_ring_write_def)

lemma start_usec_timeout [simp]:
  "usec_timeout (start_prepare K s) = usec_timeout s"
  "usec_timeout (start_finish K s) = usec_timeout s"
  by (simp_all add: start_prepare_def start_finish_def uvd_v6_0_mc_resume_def Let_def split_def)

lemma ring_test_poll_found:
  "0 < n \<Longrightarrow> next_read s mmUVD_CONTEXT_ID = 0xDEADBEEF
   \<Longrightarrow> ring_test_poll n s = (True, snd (RREG32 mmUVD_CONTEXT_ID s))"
  by (cases n) (simp_all add: split_def Let_def)

text \<open>
  The three failure paths of \<^verbatim>\<open>uvd_v6_0_hw_init\<close>. When start fails, the ready flag is
  the one start left, which is the one on entry. When the ring test fails, the flag is
  cleared.
\<close>

lemma hw_init_start_failure:
  "fst (uvd_v6_0_start K s) \<noteq> 0 \<Longrightarrow> uvd_v6_0_hw_init X K s = uvd_v6_0_start K s"
  by (simp add: uvd_v6_0_hw_init_def split_def)

lemma hw_init_ring_test_failure:
  "fst (uvd_v6_0_start K s) = 0
   \<Longrightarrow> fst (uvd_v6_0_ring_test_ring X K (snd (uvd_v6_0_start K s)\<lparr>ring_ready := True\<rparr>)) \<noteq> 0
   \<Longrightarrow> fst (uvd_v6_0_hw_init X K s)
         = fst (uvd_v6_0_ring_test_ring X K (snd (uvd_v6_0_start K s)\<lparr>ring_ready := True\<rparr>))
       \<and> \<not> ring_ready (snd (uvd_v6_0_hw_init X K s))"
  by (simp add: uvd_v6_0_hw_init_def split_def Let_def)

text \<open>
  Claim C2 does not hold of the code. On a device whose VCPU boots at the first poll and
  whose ring test passes, with a ring transport that refuses the lock for the ten words of
  the semaphore-timeout programming with the result \<open>- 12\<close>, \<^verbatim>\<open>uvd_v6_0_hw_init\<close>
  returns \<open>- 12\<close> and the ready flag of the ring is still set, for every value of the
  header constants.
\<close>

theorem hw_init_lock_failure_keeps_ready:
  "fst (uvd_v6_0_hw_init (sample_ext (- 12) 0) K
          (sample_dev (\<lambda>r n. if r = mmUVD_STATUS then 2
                             else if r = mmUVD_CONTEXT_ID then 0xDEADBEEF else 0))) = - 12
   \<and> ring_ready (snd (uvd_v6_0_hw_init (sample_ext (- 12) 0) K
          (sample_dev (\<lambda>r n. if r = mmUVD_STATUS then 2
                             else if r = mmUVD_CONTEXT_ID then 0xDEADBEEF else 0))))"
proof -
  let ?feed = "\<lambda>r (n :: nat). if r = mmUVD_STATUS then (2 :: u32)
                             else if r = mmUVD_CONTEXT_ID then 0xDEADBEEF else 0"
  let ?s0 = "sample_dev ?feed"
  let ?s1 = "start_finish K (snd (RREG32 mmUVD_STATUS (start_prepare K ?s0)))"
  have feed: "hw_feed ?s0 = ?feed" and tmo: "usec_timeout ?s0 = 100000"
    by (simp_all add: sample_dev_def)
  have st: "uvd_v6_0_start K ?s0 = (0, ?s1)"
    using start_booted_at [of 0 0 ?s0 K] by (simp add: feed)
  have poll: "ring_test_poll 100000 s = (True, snd (RREG32 mmUVD_CONTEXT_ID s))"
    if "hw_feed s = ?feed" for s
    using that by (intro ring_test_poll_found) (simp_all add: next_read_hw)
  show ?thesis
    by (simp add: uvd_v6_0_hw_init_def st uvd_v6_0_ring_test_ring_def sample_ext_def
        Let_def split_def poll feed tmo)
qed

end
